theory Spec2Isabelle
  imports Main
begin

section \<open>Common types\<close>

text \<open>
  \<open>Hex\<close> and \<open>Address\<close> are viem's string types. One datatype collects every
  exception the modelled functions can raise; a function that can throw returns
  \<open>error + 'a\<close>, with \<open>Inl\<close> for the exception.
\<close>

type_synonym Hex = string
type_synonym Address = string

datatype error =
    NotEnoughActiveMiners int nat
  | ContractReadError string
  | TransactionError string
  | ReceiptError string
  | AccountError string
  | RegistryError string
  | NodeManagerError string
  | UnsupportedChain string
  | SignError string
  | FetchError string
  | JsonError string
  | BodyReadError string
  | TypeError string

text \<open>
  \<open>Array.prototype.slice(0, n)\<close> for an integral \<open>n\<close>: a negative end counts from the
  end of the array, and the end is clamped to the array's bounds.
\<close>

definition js_slice0 :: "'a list \<Rightarrow> int \<Rightarrow> 'a list" where
  "js_slice0 xs n =
     (if n < 0 then take (nat (int (length xs) + n)) xs else take (nat n) xs)"

text \<open>\<open>Array.prototype.join(sep)\<close> on an array of strings.\<close>

fun js_join :: "string \<Rightarrow> string list \<Rightarrow> string" where
  "js_join sep [] = []"
| "js_join sep [x] = x"
| "js_join sep (x # y # ys) = x @ sep @ js_join sep (y # ys)"

section \<open>EQLite node service (eqlite-node-service.ts)\<close>

subsection \<open>State and effects\<close>

text \<open>
  The calls of \<open>EQLITE_REGISTRY_ABI\<close> that the service encodes with
  \<open>encodeFunctionData\<close>; a transaction is the registry address and the encoded call.
\<close>

datatype calldata =
    RegisterNodeCall Hex nat string int
  | SubmitAttestationCall Hex Hex Hex
  | HeartbeatCall Hex int
  | CreateDatabaseCall Hex "Hex list"

record chain_tx =
  tx_to :: Address
  tx_data :: calldata

text \<open>
  The effects a call leaves behind: the transactions handed to
  \<open>walletClient.sendTransaction\<close> (in call order), the heartbeats handed to the DWS
  node registry, and the lines written with \<open>console.log\<close> and \<open>console.error\<close>.
\<close>

record effects =
  sentTxs :: "chain_tx list"
  dwsHeartbeats :: "int list"
  consoleLog :: "string list"
  consoleError :: "string list"

record CreateDatabaseParams =
  owner :: Address
  nodeCount :: int
  useEventualConsistency :: bool
  schema :: "string option"

text \<open>
  What the outside world answers during one call of \<open>createDatabase\<close>: the hash
  \<open>keccak256(toBytes(`db-${owner}-${Date.now()}`))\<close>, the result of reading
  \<open>getActiveMiners\<close> from the registry contract, and the outcomes of sending the
  transaction and of waiting for its receipt.
\<close>

record db_env =
  databaseIdFor :: "Address \<Rightarrow> Hex"
  getActiveMiners :: "error + Hex list"
  sendTransaction :: "chain_tx \<Rightarrow> error + Hex"
  waitForTransactionReceipt :: "Hex \<Rightarrow> error + unit"

subsection \<open>createDatabase\<close>

text \<open>
  \<open>createDatabase\<close> returns the database id or throws; either way the effects so far
  stay. \<open>nodeCount\<close> is a JavaScript number, taken to be integral here. The call of
  \<open>privateKeyToAccount\<close> is not a point of failure: the constructor has made the same
  call on the same key. A transaction counts as sent once it is handed to
  \<open>walletClient.sendTransaction\<close>, whatever the wallet then answers.
\<close>

definition createDatabase ::
  "Address \<Rightarrow> db_env \<Rightarrow> CreateDatabaseParams \<Rightarrow> effects \<Rightarrow> (error + Hex) \<times> effects" where
  "createDatabase eqliteRegistryAddress env params w =
     (let databaseId = databaseIdFor env (owner params) in
      case getActiveMiners env of
        Inl e \<Rightarrow> (Inl e, w)
      | Inr activeMiners \<Rightarrow>
          if int (length activeMiners) < nodeCount params
          then (Inl (NotEnoughActiveMiners (nodeCount params) (length activeMiners)), w)
          else
            (let selectedMiners = js_slice0 activeMiners (nodeCount params);
                 tx = \<lparr>tx_to = eqliteRegistryAddress,
                       tx_data = CreateDatabaseCall databaseId selectedMiners\<rparr>;
                 w1 = w\<lparr>sentTxs := sentTxs w @ [tx]\<rparr>
             in (case sendTransaction env tx of
                   Inl e \<Rightarrow> (Inl e, w1)
                 | Inr txHash \<Rightarrow>
                     (case waitForTransactionReceipt env txHash of
                        Inl e \<Rightarrow> (Inl e, w1)
                      | Inr _ \<Rightarrow>
                          (Inr databaseId,
                           w1\<lparr>consoleLog := consoleLog w1 @
                                [''[EQLite Service] Database created: '' @ databaseId,
                                 ''[EQLite Service] Assigned to miners: '' @
                                   js_join '', '' selectedMiners]\<rparr>)))))"

subsection \<open>Selection of miners\<close>

text \<open>
  The miner lists of the \<open>createDatabase\<close> transactions among some effects, in call
  order: what the service asked the registry contract to assign.
\<close>

fun minerNodeIdsOf :: "chain_tx list \<Rightarrow> Hex list list" where
  "minerNodeIdsOf [] = []"
| "minerNodeIdsOf (tx # txs) =
     (case tx_data tx of
        CreateDatabaseCall databaseId minerNodeIds \<Rightarrow> minerNodeIds # minerNodeIdsOf txs
      | _ \<Rightarrow> minerNodeIdsOf txs)"

text \<open>
  For comparison only, the selection as the specification words it: order the candidates
  by most available capacity first, ties broken by node id, and take the first \<open>n\<close>.
  Node ids are compared as strings, character by character. The service has no notion
  of capacity, so it is a parameter here.
\<close>

fun string_less :: "string \<Rightarrow> string \<Rightarrow> bool" where
  "string_less [] [] = False"
| "string_less [] (y # ys) = True"
| "string_less (x # xs) [] = False"
| "string_less (x # xs) (y # ys) =
     ((of_char x :: nat) < of_char y \<or> (x = y \<and> string_less xs ys))"

definition scored_before :: "(Hex \<Rightarrow> nat) \<Rightarrow> Hex \<Rightarrow> Hex \<Rightarrow> bool" where
  "scored_before capacity a b =
     (capacity b < capacity a \<or> (capacity a = capacity b \<and> \<not> string_less b a))"

fun insert_scored :: "(Hex \<Rightarrow> nat) \<Rightarrow> Hex \<Rightarrow> Hex list \<Rightarrow> Hex list" where
  "insert_scored capacity a [] = [a]"
| "insert_scored capacity a (b # bs) =
     (if scored_before capacity a b then a # b # bs
      else b # insert_scored capacity a bs)"

definition spec_scoring_order :: "(Hex \<Rightarrow> nat) \<Rightarrow> Hex list \<Rightarrow> Hex list" where
  "spec_scoring_order capacity nodes = foldr (insert_scored capacity) nodes []"

definition spec_select :: "(Hex \<Rightarrow> nat) \<Rightarrow> nat \<Rightarrow> Hex list \<Rightarrow> Hex list" where
  "spec_select capacity n nodes = take n (spec_scoring_order capacity nodes)"

subsection \<open>The heartbeat loop\<close>

text \<open>
  \<open>EQLiteNodeRole\<close> has the four members that \<open>ROLE_TO_NUMBER\<close> lists.
  \<open>EQLiteNodeStatus\<close> is imported from the database package; the service only ever
  compares a status with \<open>RUNNING\<close>, so every other member is \<open>OtherStatus\<close> with its
  name.
\<close>

datatype EQLiteNodeRole = BLOCK_PRODUCER | MINER | ADAPTER | FULLNODE

datatype EQLiteNodeStatus = RUNNING | OtherStatus string

text \<open>What \<open>nodeManager.getState()\<close> returns, as far as the service reads it.\<close>

record node_state =
  state_nodeId :: string
  state_role :: EQLiteNodeRole
  state_status :: EQLiteNodeStatus
  state_databaseCount :: nat

text \<open>
  The fields of \<open>EQLiteNodeService\<close> that the loop reads, the interval handle made by
  \<open>setInterval\<close> (\<open>intervalSet\<close> until \<open>clearInterval\<close>), and the effects so far.
\<close>

record service =
  nodeManager :: "node_state option"
  dwsAgentId :: "int option"
  intervalSet :: bool
  world :: effects
















section \<open>External chain provisioning through DWS\<close>

subsection \<open>The configuration table\<close>

datatype ChainType =
    Solana | Bitcoin | Cosmos | Polkadot | Near | Aptos | Sui | Avalanche
  | Polygon | Arbitrum | Optimism | Base | Custom | Ethereum

datatype NodeType = RPC | Validator | Archive | Light | Indexer | Geyser | Bridge

datatype NetworkMode = Devnet | Testnet | Mainnet

record ChainConfig =
  chainType :: ChainType
  nodeType :: NodeType
  version :: string
  teeRequired :: bool
  teeType :: string
  minMemoryGb :: nat
  minStorageGb :: nat
  minCpuCores :: nat
  dockerImage :: string
  additionalParams :: "string list"
  evmChainId :: "nat option"
  forkUrl :: "string option"
  rpcPort :: "nat option"
  wsPort :: "nat option"

text \<open>
  \<open>CHAIN_CONFIGS\<close>, an object of objects, as a list of (chain, list of (mode, config))
  in the order of the source text.
\<close>

definition CHAIN_CONFIGS :: "(string \<times> (NetworkMode \<times> ChainConfig) list) list" where
  "CHAIN_CONFIGS = [
    (''solana'',
      [
       (Devnet,
          \<lparr>chainType = Solana, nodeType = RPC, version = ''v2.1.0'',
           teeRequired = False, teeType = '''',
           minMemoryGb = 8, minStorageGb = 50, minCpuCores = 4,
           dockerImage = ''solanalabs/solana:v1.18.26'',
           additionalParams = [''--dev'', ''--reset''],
           evmChainId = None, forkUrl = None, rpcPort = None, wsPort = None\<rparr>),
       (Testnet,
          \<lparr>chainType = Solana, nodeType = RPC, version = ''v2.1.0'',
           teeRequired = False, teeType = '''',
           minMemoryGb = 64, minStorageGb = 500, minCpuCores = 8,
           dockerImage = ''solanalabs/solana:v2.1.0'',
           additionalParams = [''--entrypoint'', ''devnet.solana.com:8001''],
           evmChainId = None, forkUrl = None, rpcPort = None, wsPort = None\<rparr>),
       (Mainnet,
          \<lparr>chainType = Solana, nodeType = RPC, version = ''v2.1.0'',
           teeRequired = True, teeType = ''intel_tdx'',
           minMemoryGb = 128, minStorageGb = 2000, minCpuCores = 16,
           dockerImage = ''solanalabs/solana:v2.1.0'',
           additionalParams = [''--entrypoint'', ''mainnet-beta.solana.com:8001''],
           evmChainId = None, forkUrl = None, rpcPort = None, wsPort = None\<rparr>)]),
    (''ethereum'',
      [
       (Devnet,
          \<lparr>chainType = Ethereum, nodeType = Archive, version = ''v1.1.5'',
           teeRequired = False, teeType = '''',
           minMemoryGb = 8, minStorageGb = 50, minCpuCores = 4,
           dockerImage = ''ghcr.io/foundry-rs/foundry:latest'',
           additionalParams = [],
           evmChainId = Some 1, forkUrl = Some ''https://1rpc.io/eth'', rpcPort = Some 8545, wsPort = Some 8546\<rparr>),
       (Testnet,
          \<lparr>chainType = Ethereum, nodeType = Archive, version = ''v1.1.5'',
           teeRequired = False, teeType = '''',
           minMemoryGb = 32, minStorageGb = 500, minCpuCores = 8,
           dockerImage = ''ghcr.io/paradigmxyz/reth:v1.1.5'',
           additionalParams = [''--chain'', ''mainnet'', ''--http'', ''--http.api'', ''all'', ''--ws'', ''--ws.api'', ''all''],
           evmChainId = Some 1, forkUrl = None, rpcPort = Some 8545, wsPort = Some 8546\<rparr>),
       (Mainnet,
          \<lparr>chainType = Ethereum, nodeType = Archive, version = ''v1.1.5'',
           teeRequired = True, teeType = ''intel_tdx'',
           minMemoryGb = 64, minStorageGb = 2500, minCpuCores = 16,
           dockerImage = ''ghcr.io/paradigmxyz/reth:v1.1.5'',
           additionalParams = [''--chain'', ''mainnet'', ''--http'', ''--http.api'', ''all'', ''--ws'', ''--ws.api'', ''all'', ''--full''],
           evmChainId = Some 1, forkUrl = None, rpcPort = Some 8545, wsPort = Some 8546\<rparr>)]),
    (''arbitrum'',
      [
       (Devnet,
          \<lparr>chainType = Arbitrum, nodeType = Archive, version = ''v3.2.1'',
           teeRequired = False, teeType = '''',
           minMemoryGb = 8, minStorageGb = 50, minCpuCores = 4,
           dockerImage = ''ghcr.io/foundry-rs/foundry:latest'',
           additionalParams = [],
           evmChainId = Some 42161, forkUrl = Some ''https://arb1.arbitrum.io/rpc'', rpcPort = Some 8547, wsPort = Some 8548\<rparr>),
       (Testnet,
          \<lparr>chainType = Arbitrum, nodeType = Archive, version = ''v3.2.1'',
           teeRequired = False, teeType = '''',
           minMemoryGb = 32, minStorageGb = 300, minCpuCores = 8,
           dockerImage = ''offchainlabs/nitro-node:v3.2.1-d1c5a49'',
           additionalParams = [''--chain.id=42161'', ''--http.api=net,web3,eth,arb,debug'', ''--http.vhosts=*'', ''--http.addr=0.0.0.0''],
           evmChainId = Some 42161, forkUrl = None, rpcPort = Some 8547, wsPort = Some 8548\<rparr>),
       (Mainnet,
          \<lparr>chainType = Arbitrum, nodeType = Archive, version = ''v3.2.1'',
           teeRequired = True, teeType = ''intel_tdx'',
           minMemoryGb = 64, minStorageGb = 1000, minCpuCores = 16,
           dockerImage = ''offchainlabs/nitro-node:v3.2.1-d1c5a49'',
           additionalParams = [''--chain.id=42161'', ''--http.api=net,web3,eth,arb,debug'', ''--http.vhosts=*'', ''--http.addr=0.0.0.0'', ''--execution.caching.archive''],
           evmChainId = Some 42161, forkUrl = None, rpcPort = Some 8547, wsPort = Some 8548\<rparr>)]),
    (''optimism'',
      [
       (Devnet,
          \<lparr>chainType = Optimism, nodeType = Archive, version = ''v1.9.4'',
           teeRequired = False, teeType = '''',
           minMemoryGb = 8, minStorageGb = 50, minCpuCores = 4,
           dockerImage = ''ghcr.io/foundry-rs/foundry:latest'',
           additionalParams = [],
           evmChainId = Some 10, forkUrl = Some ''https://mainnet.optimism.io'', rpcPort = Some 8549, wsPort = Some 8550\<rparr>),
       (Testnet,
          \<lparr>chainType = Optimism, nodeType = Archive, version = ''v1.9.4'',
           teeRequired = False, teeType = '''',
           minMemoryGb = 32, minStorageGb = 300, minCpuCores = 8,
           dockerImage = ''ghcr.io/paradigmxyz/op-reth:v1.1.5'',
           additionalParams = [''--chain'', ''optimism'', ''--http'', ''--http.api'', ''all'', ''--ws'', ''--ws.api'', ''all''],
           evmChainId = Some 10, forkUrl = None, rpcPort = Some 8549, wsPort = Some 8550\<rparr>),
       (Mainnet,
          \<lparr>chainType = Optimism, nodeType = Archive, version = ''v1.9.4'',
           teeRequired = True, teeType = ''intel_tdx'',
           minMemoryGb = 64, minStorageGb = 800, minCpuCores = 16,
           dockerImage = ''ghcr.io/paradigmxyz/op-reth:v1.1.5'',
           additionalParams = [''--chain'', ''optimism'', ''--http'', ''--http.api'', ''all'', ''--ws'', ''--ws.api'', ''all'', ''--full''],
           evmChainId = Some 10, forkUrl = None, rpcPort = Some 8549, wsPort = Some 8550\<rparr>)]),
    (''base'',
      [
       (Devnet,
          \<lparr>chainType = Base, nodeType = Archive, version = ''v1.9.4'',
           teeRequired = False, teeType = '''',
           minMemoryGb = 8, minStorageGb = 50, minCpuCores = 4,
           dockerImage = ''ghcr.io/foundry-rs/foundry:latest'',
           additionalParams = [],
           evmChainId = Some 8453, forkUrl = Some ''https://mainnet.base.org'', rpcPort = Some 8551, wsPort = Some 8552\<rparr>),
       (Testnet,
          \<lparr>chainType = Base, nodeType = Archive, version = ''v1.9.4'',
           teeRequired = False, teeType = '''',
           minMemoryGb = 32, minStorageGb = 300, minCpuCores = 8,
           dockerImage = ''ghcr.io/paradigmxyz/op-reth:v1.1.5'',
           additionalParams = [''--chain'', ''base'', ''--http'', ''--http.api'', ''all'', ''--ws'', ''--ws.api'', ''all''],
           evmChainId = Some 8453, forkUrl = None, rpcPort = Some 8551, wsPort = Some 8552\<rparr>),
       (Mainnet,
          \<lparr>chainType = Base, nodeType = Archive, version = ''v1.9.4'',
           teeRequired = True, teeType = ''intel_tdx'',
           minMemoryGb = 64, minStorageGb = 600, minCpuCores = 16,
           dockerImage = ''ghcr.io/paradigmxyz/op-reth:v1.1.5'',
           additionalParams = [''--chain'', ''base'', ''--http'', ''--http.api'', ''all'', ''--ws'', ''--ws.api'', ''all'', ''--full''],
           evmChainId = Some 8453, forkUrl = None, rpcPort = Some 8551, wsPort = Some 8552\<rparr>)])]"

text \<open>
  \<open>CHAIN_CONFIGS[chain]?.[networkMode]\<close>: \<open>undefined\<close> (here \<open>None\<close>) for a chain that
  is not a key of the table.
\<close>

definition lookupConfig :: "string \<Rightarrow> NetworkMode \<Rightarrow> ChainConfig option" where
  "lookupConfig chain_arg networkMode =
     (case map_of CHAIN_CONFIGS chain_arg of
        None \<Rightarrow> None
      | Some modes \<Rightarrow> map_of modes networkMode)"

subsection \<open>The container request\<close>

datatype NetworkType = localnet | testnet | mainnet

definition DWS_ENDPOINTS :: "NetworkType \<Rightarrow> string" where
  "DWS_ENDPOINTS net =
     (case net of
        localnet \<Rightarrow> ''http://localhost:4030''
      | testnet \<Rightarrow> ''https://dws.testnet.jejunetwork.org''
      | mainnet \<Rightarrow> ''https://dws.jejunetwork.org'')"

record Hardware =
  cpuCores :: nat
  memoryMb :: nat
  storageMb :: nat
  gpuType :: string
  gpuCount :: nat
  networkBandwidthMbps :: nat
  publicIp :: bool
  teePlatform :: string

datatype Protocol = tcp | udp

record Port =
  containerPort :: nat
  protocol :: Protocol
  expose :: bool

record DWSContainerConfig =
  cc_image :: string
  cc_tag :: string
  cc_command :: "string list"
  cc_env :: "(string \<times> string) list"
  cc_hardware :: Hardware
  cc_ports :: "Port list"
  cc_labels :: "(string \<times> string) list"

text \<open>\<open>Number.prototype.toString()\<close> of a natural number: its decimal digits.\<close>

fun digits_fuel :: "nat \<Rightarrow> nat \<Rightarrow> string" where
  "digits_fuel 0 n = []"
| "digits_fuel (Suc fuel) n =
     (if n < 10 then [char_of (48 + n)]
      else digits_fuel fuel (n div 10) @ [char_of (48 + n mod 10)])"

definition number_toString :: "nat \<Rightarrow> string" where
  "number_toString n = digits_fuel (Suc n) n"

text \<open>\<open>NodeType[config.nodeType].toLowerCase()\<close>: the lower-cased name of the member.\<close>

definition nodeTypeLabel :: "NodeType \<Rightarrow> string" where
  "nodeTypeLabel t =
     (case t of
        RPC \<Rightarrow> ''rpc'' | Validator \<Rightarrow> ''validator'' | Archive \<Rightarrow> ''archive''
      | Light \<Rightarrow> ''light'' | Indexer \<Rightarrow> ''indexer'' | Geyser \<Rightarrow> ''geyser''
      | Bridge \<Rightarrow> ''bridge'')"

definition networkName :: "NetworkType \<Rightarrow> string" where
  "networkName net =
     (case net of localnet \<Rightarrow> ''localnet'' | testnet \<Rightarrow> ''testnet'' | mainnet \<Rightarrow> ''mainnet'')"

text \<open>\<open>x ? a : b\<close> on an optional number: \<open>undefined\<close> and \<open>0\<close> are falsy.\<close>

definition truthy_number :: "nat option \<Rightarrow> bool" where
  "truthy_number x = (case x of None \<Rightarrow> False | Some n \<Rightarrow> n \<noteq> 0)"

text \<open>The object literal \<open>containerConfig\<close> that \<open>deployDWSNode\<close> builds.\<close>

definition containerConfigOf :: "string \<Rightarrow> NetworkType \<Rightarrow> ChainConfig \<Rightarrow> DWSContainerConfig" where
  "containerConfigOf chain_arg net config =
     \<lparr>cc_image = dockerImage config,
      cc_tag = ''latest'',
      cc_command = additionalParams config,
      cc_env = (if truthy_number (evmChainId config)
                then [(''CHAIN_ID'', number_toString (the (evmChainId config)))]
                else []),
      cc_hardware =
        \<lparr>cpuCores = minCpuCores config,
         memoryMb = minMemoryGb config * 1024,
         storageMb = minStorageGb config * 1024,
         gpuType = ''none'',
         gpuCount = 0,
         networkBandwidthMbps = 1000,
         publicIp = True,
         teePlatform = (if teeRequired config then teeType config else ''none'')\<rparr>,
      cc_ports =
        \<lparr>containerPort = (case rpcPort config of None \<Rightarrow> 8545 | Some p \<Rightarrow> p),
         protocol = tcp, expose = True\<rparr> #
        (if truthy_number (wsPort config)
         then [\<lparr>containerPort = the (wsPort config), protocol = tcp, expose = True\<rparr>]
         else []),
      cc_labels =
        [(''jeju.chain'', chain_arg),
         (''jeju.network'', networkName net),
         (''jeju.type'', ''external-chain''),
         (''jeju.node-type'', nodeTypeLabel (nodeType config))]\<rparr>"

record RequestBody =
  body_config :: DWSContainerConfig
  body_owner :: Address
  body_machineType :: string

record HttpRequest =
  req_url :: string
  req_method :: string
  req_headers :: "(string \<times> string) list"
  req_body :: RequestBody

text \<open>
  The JSON body of a response as far as \<open>deployDWSNode\<close> reads it. The cast
  \<open>as { containerId, endpoints: { rpc, ws? }, status }\<close> checks nothing at run time, so
  every property may be missing (\<open>None\<close>); a property that is there has the type the cast
  gives it. \<open>api_status\<close> is \<open>None\<close> also for a status that is not a string, which
  \<open>=== 'running'\<close> treats alike.
\<close>

record ApiEndpoints =
  api_rpc :: "string option"
  api_ws :: "string option"

record ApiResult =
  api_containerId :: "string option"
  api_endpoints :: "ApiEndpoints option"
  api_status :: "string option"

text \<open>
  The response: \<open>response.ok\<close>; \<open>await response.text()\<close>, which rejects when the body
  cannot be read; \<open>await response.json()\<close>, which rejects when the body cannot be read or
  is not JSON, and otherwise gives the parsed value, \<open>None\<close> for JSON \<open>null\<close>.
\<close>

record HttpResponse =
  resp_ok :: bool
  resp_text :: "error + string"
  resp_json :: "error + ApiResult option"

text \<open>
  What the outside world answers during one call of \<open>deployDWSNode\<close>:
  \<open>privateKeyToAccount\<close> (the account's address, or an exception for a malformed key),
  \<open>Date.now()\<close>, \<open>account.signMessage\<close> on
  \<open>JSON.stringify({ containerConfig, timestamp })\<close>, and \<open>fetch\<close>.
\<close>

record dd_env =
  dd_privateKeyToAccount :: "string \<Rightarrow> error + Address"
  dd_now :: nat
  dd_signMessage :: "Address \<Rightarrow> DWSContainerConfig \<Rightarrow> nat \<Rightarrow> error + string"
  dd_fetch :: "HttpRequest \<Rightarrow> error + HttpResponse"

subsection \<open>deployDWSNode\<close>

datatype DeployMode = local | dws

datatype DeployStatus = running | pending | failed

text \<open>
  \<open>DeploymentResult\<close>; \<open>endpoints\<close> is the pair of \<open>rpc\<close> and \<open>ws\<close>. The \<open>rpc\<close> string is
  optional here because \<open>deployDWSNode\<close> copies \<open>result.endpoints.rpc\<close> unchecked, which
  is \<open>undefined\<close> when the API's answer has none.
\<close>

record DeploymentResult =
  network :: NetworkType
  chainName :: string
  mode :: DeployMode
  providerId :: "string option"
  nodeId :: "string option"
  containerId :: "string option"
  endpoints :: "string option \<times> string"
  tee :: bool
  status :: DeployStatus

text \<open>
  The first half of \<open>deployDWSNode\<close>, up to the call of \<open>fetch\<close>: the configuration it
  found and the request it is about to send, or the exception it threw before sending
  anything. (The progress lines written with \<open>console.log\<close> are left out.)
\<close>

definition provisionRequest ::
  "dd_env \<Rightarrow> string \<Rightarrow> NetworkMode \<Rightarrow> NetworkType \<Rightarrow> string \<Rightarrow> error + ChainConfig \<times> HttpRequest" where
  "provisionRequest env chain_arg networkMode net privateKey =
     (case lookupConfig chain_arg networkMode of
        None \<Rightarrow> Inl (UnsupportedChain chain_arg)
      | Some config \<Rightarrow>
          let dwsEndpoint = DWS_ENDPOINTS net in
          (case dd_privateKeyToAccount env privateKey of
             Inl e \<Rightarrow> Inl e
           | Inr address \<Rightarrow>
               let containerConfig = containerConfigOf chain_arg net config;
                   timestamp = dd_now env
               in (case dd_signMessage env address containerConfig timestamp of
                     Inl e \<Rightarrow> Inl e
                   | Inr signature \<Rightarrow>
                       Inr (config,
                            \<lparr>req_url = dwsEndpoint @ ''/v1/containers/provision'',
                             req_method = ''POST'',
                             req_headers =
                               [(''Content-Type'', ''application/json''),
                                (''X-Signature'', signature),
                                (''X-Timestamp'', number_toString timestamp),
                                (''X-Address'', address)],
                             req_body =
                               \<lparr>body_config = containerConfig,
                                body_owner = address,
                                body_machineType =
                                  (if teeRequired config then ''tee-large'' else ''xlarge'')\<rparr>\<rparr>))))"

text \<open>
  The second half: what \<open>deployDWSNode\<close> does with the response. Neither
  \<open>response.text()\<close> nor \<open>response.json()\<close> is inside a \<open>try\<close>, so their rejections leave
  the function; reading \<open>result.containerId\<close> of \<open>null\<close>, or \<open>result.endpoints.rpc\<close>
  when \<open>result.endpoints\<close> is missing, is a \<open>TypeError\<close>.
\<close>

definition handleResponse ::
  "string \<Rightarrow> NetworkType \<Rightarrow> ChainConfig \<Rightarrow> HttpResponse \<Rightarrow> error + DeploymentResult" where
  "handleResponse chain_arg net config response =
     (if \<not> resp_ok response
      then (case resp_text response of
              Inl e \<Rightarrow> Inl e
            | Inr error_text \<Rightarrow>
                Inr \<lparr>network = net, chainName = chain_arg, mode = dws,
                     providerId = None, nodeId = None, containerId = None,
                     endpoints = (Some '''', ''''),
                     tee = teeRequired config,
                     status = failed\<rparr>)
      else (case resp_json response of
              Inl e \<Rightarrow> Inl e
            | Inr None \<Rightarrow> Inl (TypeError ''Cannot read properties of null'')
            | Inr (Some result) \<Rightarrow>
                (case api_endpoints result of
                   None \<Rightarrow> Inl (TypeError ''Cannot read properties of undefined'')
                 | Some eps \<Rightarrow>
                     Inr \<lparr>network = net, chainName = chain_arg, mode = dws,
                          providerId = None, nodeId = None,
                          containerId = api_containerId result,
                          endpoints =
                            (api_rpc eps,
                             (case api_ws eps of None \<Rightarrow> '''' | Some w \<Rightarrow> w)),
                          tee = teeRequired config,
                          status =
                            (if api_status result = Some ''running''
                             then running else pending)\<rparr>)))"

definition deployDWSNode ::
  "dd_env \<Rightarrow> string \<Rightarrow> NetworkMode \<Rightarrow> NetworkType \<Rightarrow> string \<Rightarrow> error + DeploymentResult" where
  "deployDWSNode env chain_arg networkMode net privateKey =
     (case provisionRequest env chain_arg networkMode net privateKey of
        Inl e \<Rightarrow> Inl e
      | Inr (config, request) \<Rightarrow>
          (case dd_fetch env request of
             Inl e \<Rightarrow> Inl e
           | Inr response \<Rightarrow> handleResponse chain_arg net config response))"

section \<open>Node registry, provisioner and service discovery\<close>

text \<open>
  The repository's sources here hold only the export list of the service provisioners
  (\<open>StatefulProvisioner\<close>, \<open>resolveSRV\<close>, \<open>markEndpointHealthy\<close>, ...) and an import of
  \<open>NodeRegistry\<close>; the modules themselves (\<open>stateful-provisioner\<close>, \<open>discovery\<close>,
  \<open>node-registry\<close>) are not among them. Every definition of this section is therefore
  written from the specification's words, and says so.
\<close>

subsection \<open>Node registry\<close>

text \<open>
  Modelled from the spec: the health status of a node in the missing \<open>node-registry\<close>
  module (sections 3 and 9): the tagged state healthy, unhealthy or unknown.
\<close>

datatype HealthStatus = Healthy | Unhealthy | Unknown

text \<open>
  Modelled from the spec: the hardware specs of a node in the missing \<open>node-registry\<close>
  module (section 3): CPU cores, memory, storage, bandwidth, trusted-execution platform.
\<close>

record NodeSpecs =
  spec_cpuCores :: nat
  spec_memoryMb :: nat
  spec_storageMb :: nat
  spec_bandwidthMbps :: nat
  spec_teePlatform :: string

text \<open>
  Modelled from the spec: the \<open>Node\<close> descriptor of the missing \<open>node-registry\<close> module
  (section 3): identifier, hardware specs, capability tags, pricing, region, health
  status and last-heartbeat timestamp.
\<close>

record Node =
  node_id :: nat
  node_specs :: NodeSpecs
  node_capabilities :: "string list"
  node_pricePerHour :: nat
  node_pricePerGb :: nat
  node_pricePerRequest :: nat
  node_region :: "string option"
  node_health :: HealthStatus
  node_lastHeartbeat :: nat

text \<open>
  Modelled from the spec: \<open>listByCapability\<close> of the missing \<open>node-registry\<close> module
  (section 4.1): the registered nodes whose capability set contains the tag, healthy
  nodes only, in the order of their node ids. The registry is the list of its nodes.
\<close>

definition listByCapability :: "Node list \<Rightarrow> string \<Rightarrow> Node list" where
  "listByCapability nodes capability =
     sort_key node_id
       (filter (\<lambda>n. capability \<in> set (node_capabilities n) \<and> node_health n = Healthy) nodes)"

subsection \<open>Service discovery\<close>

text \<open>
  Modelled from the spec: the errors of section 7 that the missing \<open>discovery\<close> and
  \<open>stateful-provisioner\<close> modules raise.
\<close>

datatype dws_error =
    ValidationError
  | NotFoundError
  | InsufficientCapacityError
  | OperationInProgressError
  | NoLeaderError
  | NoHealthyEndpointError

text \<open>
  Modelled from the spec: \<open>ServiceEndpoint\<close> of the missing \<open>discovery\<close> module
  (section 3): address, port, health flag, weight, last-updated timestamp.
\<close>

record ServiceEndpoint =
  ep_address :: string
  ep_port :: nat
  ep_healthy :: bool
  ep_weight :: nat
  ep_lastUpdated :: nat

text \<open>
  Modelled from the spec: \<open>ServiceRecord\<close> of the missing \<open>discovery\<close> module (section 3):
  fully-qualified name, service type tag, endpoints, TXT-style metadata; and, for a
  stateful service, the address published under its leader-resolution record
  (section 4.2), if one is marked.
\<close>

record ServiceRecord =
  rec_fqdn :: string
  rec_type :: string
  rec_endpoints :: "ServiceEndpoint list"
  rec_metadata :: "(string \<times> string) list"
  rec_leader :: "string option"

text \<open>
  Modelled from the spec: the name-indexed store of the missing \<open>discovery\<close> module
  (section 4.3), one record per name.
\<close>

type_synonym dns_table = "string \<rightharpoonup> ServiceRecord"

text \<open>
  Modelled from the spec: what a health mark of the missing \<open>discovery\<close> module does to
  one endpoint (sections 3, 4.3 and 8): an endpoint with the given address whose health
  flag is not yet as asked gets the flag and a new last-updated timestamp. An endpoint
  that already has the flag is left as it is, time stamp included (a second call in
  succession leaves the endpoint set unchanged), and so is one with another address.
\<close>

definition markEndpoint :: "bool \<Rightarrow> string \<Rightarrow> nat \<Rightarrow> ServiceEndpoint \<Rightarrow> ServiceEndpoint" where
  "markEndpoint flag address now e =
     (if ep_address e = address \<and> ep_healthy e \<noteq> flag
      then e\<lparr>ep_healthy := flag, ep_lastUpdated := now\<rparr> else e)"

text \<open>
  Modelled from the spec: the health mark shared by \<open>markEndpointHealthy\<close> and
  \<open>markEndpointUnhealthy\<close> of the missing \<open>discovery\<close> module (sections 3 and 4.3): a
  health-mark call mutates the endpoints of the named record; other names are untouched.
\<close>

definition setEndpointHealth :: "bool \<Rightarrow> dns_table \<Rightarrow> string \<Rightarrow> string \<Rightarrow> nat \<Rightarrow> dns_table" where
  "setEndpointHealth flag dns name address now =
     (case dns name of
        None \<Rightarrow> dns
      | Some r \<Rightarrow>
          dns(name \<mapsto> r\<lparr>rec_endpoints :=
            map (markEndpoint flag address now) (rec_endpoints r)\<rparr>))"

text \<open>
  Modelled from the spec: \<open>markEndpointHealthy\<close> of the missing \<open>discovery\<close> module
  (section 4.3).
\<close>

definition markEndpointHealthy :: "dns_table \<Rightarrow> string \<Rightarrow> string \<Rightarrow> nat \<Rightarrow> dns_table" where
  "markEndpointHealthy = setEndpointHealth True"

text \<open>
  Modelled from the spec: \<open>markEndpointUnhealthy\<close> of the missing \<open>discovery\<close> module
  (section 4.3).
\<close>

definition markEndpointUnhealthy :: "dns_table \<Rightarrow> string \<Rightarrow> string \<Rightarrow> nat \<Rightarrow> dns_table" where
  "markEndpointUnhealthy = setEndpointHealth False"

text \<open>
  Modelled from the spec: the endpoints a resolution call of the missing \<open>discovery\<close>
  module may answer with (section 4.3): unhealthy endpoints are excluded from all
  resolution calls.
\<close>

definition healthyEndpoints :: "ServiceRecord \<Rightarrow> ServiceEndpoint list" where
  "healthyEndpoints r = filter ep_healthy (rec_endpoints r)"

text \<open>
  Modelled from the spec: \<open>resolveA\<close> of the missing \<open>discovery\<close> module (section 4.3):
  all endpoint addresses of a name, healthy only; an unknown name is a not-found failure.
\<close>

definition resolveA :: "dns_table \<Rightarrow> string \<Rightarrow> dws_error + string list" where
  "resolveA dns name =
     (case dns name of
        None \<Rightarrow> Inl NotFoundError
      | Some r \<Rightarrow> Inr (map ep_address (healthyEndpoints r)))"

text \<open>
  Modelled from the spec: \<open>resolveSRV\<close> of the missing \<open>discovery\<close> module (section 4.3):
  address, port and weight of each endpoint, healthy only.
\<close>

definition resolveSRV :: "dns_table \<Rightarrow> string \<Rightarrow> dws_error + (string \<times> nat \<times> nat) list" where
  "resolveSRV dns name =
     (case dns name of
        None \<Rightarrow> Inl NotFoundError
      | Some r \<Rightarrow> Inr (map (\<lambda>e. (ep_address e, ep_port e, ep_weight e)) (healthyEndpoints r)))"

text \<open>
  Modelled from the spec: \<open>resolveLeader\<close> of the missing \<open>discovery\<close> module
  (section 4.3): the endpoint currently marked leader; \<open>NoLeaderError\<close> if none is
  marked. As in every resolution call, an unhealthy endpoint is not answered.
\<close>

definition resolveLeader :: "dns_table \<Rightarrow> string \<Rightarrow> dws_error + ServiceEndpoint" where
  "resolveLeader dns name =
     (case dns name of
        None \<Rightarrow> Inl NotFoundError
      | Some r \<Rightarrow>
          (case rec_leader r of
             None \<Rightarrow> Inl NoLeaderError
           | Some address \<Rightarrow>
               (case find (\<lambda>e. ep_address e = address) (healthyEndpoints r) of
                  None \<Rightarrow> Inl NoLeaderError
                | Some e \<Rightarrow> Inr e)))"

text \<open>
  Modelled from the spec: the strategies of \<open>resolveWithLoadBalancing\<close> of the missing
  \<open>discovery\<close> module (section 4.3).
\<close>

datatype Strategy = RoundRobin | WeightedRandom

text \<open>
  Modelled from the spec: the weighted choice of \<open>resolveWithLoadBalancing\<close> (section
  4.3): walk the endpoints, spending the draw on their weights.
\<close>

fun weightedPick :: "ServiceEndpoint list \<Rightarrow> nat \<Rightarrow> ServiceEndpoint option" where
  "weightedPick [] draw = None"
| "weightedPick [e] draw = Some e"
| "weightedPick (e # e' # es) draw =
     (if draw < ep_weight e then Some e else weightedPick (e' # es) (draw - ep_weight e))"

text \<open>
  Modelled from the spec: \<open>resolveWithLoadBalancing\<close> of the missing \<open>discovery\<close> module
  (section 4.3): round-robin or weighted-random over the healthy endpoints,
  \<open>NoHealthyEndpointError\<close> if there is none. \<open>draw\<close> is the round-robin counter or the
  random number of the call (below the total weight).
\<close>

definition resolveWithLoadBalancing ::
  "dns_table \<Rightarrow> string \<Rightarrow> Strategy \<Rightarrow> nat \<Rightarrow> dws_error + ServiceEndpoint" where
  "resolveWithLoadBalancing dns name strategy draw =
     (case dns name of
        None \<Rightarrow> Inl NotFoundError
      | Some r \<Rightarrow>
          (let healthy = healthyEndpoints r in
           if healthy = [] then Inl NoHealthyEndpointError
           else (case strategy of
                   RoundRobin \<Rightarrow> Inr (healthy ! (draw mod length healthy))
                 | WeightedRandom \<Rightarrow>
                     (case weightedPick healthy draw of
                        None \<Rightarrow> Inl NoHealthyEndpointError
                      | Some e \<Rightarrow> Inr e))))"

text \<open>
  Modelled from the spec: the explicit full-listing debug query of the missing
  \<open>discovery\<close> module (section 4.3), exported as \<open>getServiceByFqdn\<close>: the whole record,
  unhealthy endpoints included.
\<close>

definition getServiceByFqdn :: "dns_table \<Rightarrow> string \<Rightarrow> ServiceRecord option" where
  "getServiceByFqdn dns name = dns name"

subsection \<open>Stateful service provisioner\<close>

text \<open>
  Modelled from the spec: \<open>ReplicaRole\<close> of the missing \<open>stateful-provisioner\<close> module
  (section 3): leader or replica.
\<close>

datatype ReplicaRole = leader | replica

text \<open>
  Modelled from the spec: \<open>StatefulReplica\<close> of the missing \<open>stateful-provisioner\<close>
  module (section 3): owning service id, assigned node id, role, endpoint address,
  health.
\<close>

record StatefulReplica =
  rep_serviceId :: string
  rep_nodeId :: nat
  rep_role :: ReplicaRole
  rep_address :: string
  rep_health :: HealthStatus

text \<open>
  Modelled from the spec: \<open>VolumeConfig\<close> of the missing \<open>stateful-provisioner\<close> module
  (section 3): size and storage tier.
\<close>

record VolumeConfig =
  vol_sizeMb :: nat
  vol_tier :: string

text \<open>
  Modelled from the spec: \<open>StatefulServiceConfig\<close> of the missing
  \<open>stateful-provisioner\<close> module (section 4.2): the service's identifier, the capability
  required, the replica count N, the consensus protocol tag and the volume spec.
\<close>

record StatefulServiceConfig =
  cfg_serviceId :: string
  cfg_capability :: string
  cfg_replicas :: nat
  cfg_consensus :: string
  cfg_volume :: VolumeConfig

text \<open>
  Modelled from the spec: \<open>StatefulService\<close> of the missing \<open>stateful-provisioner\<close>
  module (section 3): identifier, desired replica count, required capability, consensus
  protocol tag, volume configuration and the list of replicas.
\<close>

record StatefulService =
  svc_id :: string
  svc_replicaCount :: nat
  svc_capability :: string
  svc_consensus :: string
  svc_volume :: VolumeConfig
  svc_replicas :: "StatefulReplica list"

text \<open>
  Modelled from the spec: what section 4.2 leaves to the missing \<open>stateful-provisioner\<close>
  module and its configuration: a node's available capacity (the score), the address a
  replica on a node is reached at, the port and weight its endpoints are registered
  with, and the fully-qualified name of a service.
\<close>

record provisioner_params =
  availableCapacity :: "Node \<Rightarrow> nat"
  addressOf :: "Node \<Rightarrow> string"
  servicePort :: nat
  endpointWeight :: nat
  fqdnOf :: "string \<Rightarrow> string"

text \<open>
  Modelled from the spec: the state the missing modules keep (section 9): node table,
  service table and DNS table.
\<close>

record dws_state =
  st_nodes :: "Node list"
  st_services :: "StatefulService list"
  st_dns :: dns_table

text \<open>
  Modelled from the spec: the scoring order of \<open>deploy\<close> (section 4.2): most available
  capacity first, ties broken by node id.
\<close>

definition scoringOrder :: "provisioner_params \<Rightarrow> Node list \<Rightarrow> Node list" where
  "scoringOrder P nodes =
     sort_key (\<lambda>n. - int (availableCapacity P n)) (sort_key node_id nodes)"

text \<open>
  Modelled from the spec: the role assignment of \<open>deploy\<close> (section 4.2): \<open>leader\<close> for
  the first-selected node, \<open>replica\<close> for the rest.
\<close>

fun assignRoles :: "provisioner_params \<Rightarrow> string \<Rightarrow> Node list \<Rightarrow> StatefulReplica list" where
  "assignRoles P sid [] = []"
| "assignRoles P sid (n # ns) =
     \<lparr>rep_serviceId = sid, rep_nodeId = node_id n, rep_role = leader,
      rep_address = addressOf P n, rep_health = Healthy\<rparr> #
     map (\<lambda>m. \<lparr>rep_serviceId = sid, rep_nodeId = node_id m, rep_role = replica,
               rep_address = addressOf P m, rep_health = Healthy\<rparr>) ns"

text \<open>
  Modelled from the spec: the endpoint \<open>deploy\<close> registers for a replica (section 4.2).
\<close>

definition endpointOfReplica :: "provisioner_params \<Rightarrow> nat \<Rightarrow> StatefulReplica \<Rightarrow> ServiceEndpoint" where
  "endpointOfReplica P now r =
     \<lparr>ep_address = rep_address r, ep_port = servicePort P, ep_healthy = True,
      ep_weight = endpointWeight P, ep_lastUpdated = now\<rparr>"

text \<open>
  Modelled from the spec: \<open>deploy\<close> of the missing \<open>stateful-provisioner\<close> module
  (section 4.2): query the registry for healthy nodes with the capability; fail with
  \<open>InsufficientCapacityError\<close> if fewer than N are available; select N nodes in the
  scoring order; assign the roles; register one endpoint per replica under the
  service's fully-qualified name.
\<close>

definition deploy ::
  "provisioner_params \<Rightarrow> nat \<Rightarrow> StatefulServiceConfig \<Rightarrow> dws_state
     \<Rightarrow> dws_error + StatefulService \<times> dws_state" where
  "deploy P now config st =
     (let eligible = listByCapability (st_nodes st) (cfg_capability config) in
      if length eligible < cfg_replicas config then Inl InsufficientCapacityError
      else
        (let selected = take (cfg_replicas config) (scoringOrder P eligible);
             replicas = assignRoles P (cfg_serviceId config) selected;
             service = \<lparr>svc_id = cfg_serviceId config,
                        svc_replicaCount = cfg_replicas config,
                        svc_capability = cfg_capability config,
                        svc_consensus = cfg_consensus config,
                        svc_volume = cfg_volume config,
                        svc_replicas = replicas\<rparr>;
             name = fqdnOf P (cfg_serviceId config);
             published = \<lparr>rec_fqdn = name, rec_type = ''stateful'',
                          rec_endpoints = map (endpointOfReplica P now) replicas,
                          rec_metadata = [],
                          rec_leader = (case replicas of [] \<Rightarrow> None
                                        | r # _ \<Rightarrow> Some (rep_address r))\<rparr>
         in Inr (service,
                 st\<lparr>st_services := st_services st @ [service],
                    st_dns := (st_dns st)(name \<mapsto> published)\<rparr>)))"

section \<open>Concrete inputs\<close>

text \<open>Small concrete worlds on which the theorems below are run.\<close>

definition no_effects :: effects where
  "no_effects = \<lparr>sentTxs = [], dwsHeartbeats = [], consoleLog = [], consoleError = []\<rparr>"

definition example_params :: "int \<Rightarrow> CreateDatabaseParams" where
  "example_params n =
     \<lparr>owner = ''0xowner'', nodeCount = n, useEventualConsistency = False, schema = None\<rparr>"

definition example_db_env :: "Hex list \<Rightarrow> db_env" where
  "example_db_env miners =
     \<lparr>databaseIdFor = (\<lambda>_. ''0xdb''),
      getActiveMiners = Inr miners,
      sendTransaction = (\<lambda>_. Inr ''0xtx''),
      waitForTransactionReceipt = (\<lambda>_. Inr ())\<rparr>"

definition equal_capacity :: "Hex \<Rightarrow> nat" where
  "equal_capacity h = 1"



definition example_dd_env :: "HttpResponse \<Rightarrow> dd_env" where
  "example_dd_env response =
     \<lparr>dd_privateKeyToAccount = (\<lambda>_. Inr ''0xacct''),
      dd_now = 1700000000000,
      dd_signMessage = (\<lambda>_ _ _. Inr ''0xsig''),
      dd_fetch = (\<lambda>_. Inr response)\<rparr>"

definition error_response :: HttpResponse where
  "error_response =
     \<lparr>resp_ok = False, resp_text = Inr ''no capacity'',
      resp_json = Inl (JsonError ''Unexpected token'')\<rparr>"

definition ok_response :: "string \<Rightarrow> HttpResponse" where
  "ok_response st =
     \<lparr>resp_ok = True, resp_text = Inr [],
      resp_json = Inr (Some \<lparr>api_containerId = Some ''c-1'',
                              api_endpoints = Some \<lparr>api_rpc = Some ''http://10.0.0.1:8545'',
                                                     api_ws = None\<rparr>,
                              api_status = Some st\<rparr>)\<rparr>"

definition not_json_response :: HttpResponse where
  "not_json_response =
     \<lparr>resp_ok = True, resp_text = Inr ''<html>Bad gateway</html>'',
      resp_json = Inl (JsonError ''Unexpected token'')\<rparr>"

definition no_endpoints_response :: HttpResponse where
  "no_endpoints_response =
     \<lparr>resp_ok = True, resp_text = Inr [],
      resp_json = Inr (Some \<lparr>api_containerId = Some ''c-1'', api_endpoints = None,
                              api_status = Some ''running''\<rparr>)\<rparr>"

definition unreadable_error_response :: HttpResponse where
  "unreadable_error_response =
     \<lparr>resp_ok = False, resp_text = Inl (BodyReadError ''terminated''),
      resp_json = Inl (BodyReadError ''terminated'')\<rparr>"

definition example_node :: "nat \<Rightarrow> string list \<Rightarrow> HealthStatus \<Rightarrow> Node" where
  "example_node i caps h =
     \<lparr>node_id = i,
      node_specs = \<lparr>spec_cpuCores = 4, spec_memoryMb = 8192, spec_storageMb = 102400,
                     spec_bandwidthMbps = 1000, spec_teePlatform = ''none''\<rparr>,
      node_capabilities = caps,
      node_pricePerHour = 0, node_pricePerGb = 0, node_pricePerRequest = 0,
      node_region = None,
      node_health = h,
      node_lastHeartbeat = 0\<rparr>"

definition example_nodes :: "Node list" where
  "example_nodes =
     [example_node 3 [''db''] Healthy,
      example_node 1 [''db'', ''storage''] Healthy,
      example_node 4 [''storage''] Healthy,
      example_node 2 [''db''] Unhealthy]"

definition example_provisioner :: provisioner_params where
  "example_provisioner =
     \<lparr>availableCapacity = (\<lambda>n. 1),
      addressOf = (\<lambda>n. if node_id n = 1 then ''10.0.0.1''
                        else if node_id n = 2 then ''10.0.0.2''
                        else if node_id n = 3 then ''10.0.0.3'' else ''10.0.0.4''),
      servicePort = 5432,
      endpointWeight = 1,
      fqdnOf = (\<lambda>sid. sid @ ''.svc.jeju'')\<rparr>"

definition example_config :: "nat \<Rightarrow> StatefulServiceConfig" where
  "example_config n =
     \<lparr>cfg_serviceId = ''pg'', cfg_capability = ''db'', cfg_replicas = n,
      cfg_consensus = ''leader-follower'',
      cfg_volume = \<lparr>vol_sizeMb = 1024, vol_tier = ''ssd''\<rparr>\<rparr>"

definition example_state :: dws_state where
  "example_state = \<lparr>st_nodes = example_nodes, st_services = [], st_dns = Map.empty\<rparr>"

definition example_endpoint :: "string \<Rightarrow> bool \<Rightarrow> ServiceEndpoint" where
  "example_endpoint a h =
     \<lparr>ep_address = a, ep_port = 5432, ep_healthy = h, ep_weight = 1, ep_lastUpdated = 0\<rparr>"

definition example_dns :: dns_table where
  "example_dns =
     [''pg.svc.jeju'' \<mapsto>
        \<lparr>rec_fqdn = ''pg.svc.jeju'', rec_type = ''stateful'',
         rec_endpoints = [example_endpoint ''10.0.0.1'' True, example_endpoint ''10.0.0.3'' True],
         rec_metadata = [],
         rec_leader = Some ''10.0.0.1''\<rparr>]"

section \<open>Capacity check of createDatabase\<close>

text \<open>
  C1. When the registry reports fewer active miners than the \<open>nodeCount\<close> asked for,
  \<open>createDatabase\<close> fails with the not-enough-miners error and leaves the effects as
  they were: no \<open>createDatabase\<close> transaction is sent and nothing is logged.
\<close>

theorem createDatabase_insufficient_capacity:
  assumes "getActiveMiners env = Inr miners"
    and "int (length miners) < nodeCount params"
  shows "createDatabase reg env params w =
           (Inl (NotEnoughActiveMiners (nodeCount params) (length miners)), w)"
  using assms by (simp add: createDatabase_def)

text \<open>Three replicas asked for, two active miners: nothing happens but the error.\<close>

theorem createDatabase_insufficient_capacity_witness:
  "createDatabase ''0xreg'' (example_db_env [''0x0a'', ''0x0b'']) (example_params 3) no_effects
     = (Inl (NotEnoughActiveMiners 3 2), no_effects)"
  using createDatabase_insufficient_capacity[of "example_db_env [''0x0a'', ''0x0b'']"
      "[''0x0a'', ''0x0b'']" "example_params 3" "''0xreg''" no_effects]
  by (simp add: example_db_env_def example_params_def)

section \<open>Which miners createDatabase selects\<close>

lemma js_slice0_prefix: "0 \<le> n \<Longrightarrow> js_slice0 xs n = take (nat n) xs"
  by (simp add: js_slice0_def)

text \<open>
  C3, as the specification words it: the nodes are chosen by a scoring order, most
  available capacity first and ties broken by node id. The service does not do that.
  With the registry answering \<open>[0x02, 0x01]\<close> and one node asked for, it assigns
  \<open>0x02\<close>, while the scoring order on equal capacities puts \<open>0x01\<close> first.
\<close>

theorem createDatabase_selection_counterexample:
  "minerNodeIdsOf (sentTxs (snd (createDatabase ''0xreg''
       (example_db_env [''0x02'', ''0x01'']) (example_params 1) no_effects))) = [[''0x02'']]
   \<and> spec_select equal_capacity 1 [''0x02'', ''0x01''] = [''0x01'']
   \<and> minerNodeIdsOf (sentTxs (snd (createDatabase ''0xreg''
       (example_db_env [''0x02'', ''0x01'']) (example_params 1) no_effects)))
       \<noteq> [spec_select equal_capacity 1 [''0x02'', ''0x01'']]"
  by (simp add: createDatabase_def example_db_env_def example_params_def no_effects_def Let_def
      js_slice0_def spec_select_def spec_scoring_order_def scored_before_def equal_capacity_def)

text \<open>
  C3, as the code has it ("simple selection for now - could add scoring"): when enough
  miners are active, the one transaction \<open>createDatabase\<close> sends carries
  \<open>activeMiners.slice(0, nodeCount)\<close>, a prefix of the list in the order the registry
  returned it, which for a non-negative \<open>nodeCount\<close> is its first \<open>nodeCount\<close> entries.
  The call carries node ids only: no role is assigned to any of them.
\<close>

theorem createDatabase_selects_prefix:
  assumes "getActiveMiners env = Inr miners"
    and "\<not> int (length miners) < nodeCount params"
  shows "sentTxs (snd (createDatabase reg env params w)) =
           sentTxs w @ [\<lparr>tx_to = reg,
                         tx_data = CreateDatabaseCall (databaseIdFor env (owner params))
                                     (js_slice0 miners (nodeCount params))\<rparr>]
         \<and> (0 \<le> nodeCount params \<longrightarrow>
              js_slice0 miners (nodeCount params) = take (nat (nodeCount params)) miners)
         \<and> (\<exists>rest. miners = js_slice0 miners (nodeCount params) @ rest)"
proof -
  have "\<exists>rest. miners = js_slice0 miners (nodeCount params) @ rest"
    by (metis append_take_drop_id js_slice0_def)
  then show ?thesis
    using assms by (auto simp: createDatabase_def Let_def js_slice0_prefix split: sum.splits)
qed

theorem createDatabase_selects_prefix_witness:
  "minerNodeIdsOf (sentTxs (snd (createDatabase ''0xreg''
       (example_db_env [''A'', ''B'', ''C'']) (example_params 3) no_effects)))
     = [[''A'', ''B'', ''C'']]
   \<and> js_slice0 [''A'', ''B'', ''C''] 3 = take 3 [''A'', ''B'', ''C'']"
  using createDatabase_selects_prefix[of "example_db_env [''A'', ''B'', ''C'']"
      "[''A'', ''B'', ''C'']" "example_params 3" "''0xreg''" no_effects]
  by (simp add: example_db_env_def example_params_def no_effects_def js_slice0_def)

section \<open>The heartbeat loop contains its failures\<close>


















section \<open>What deployDWSNode makes of the response\<close>

lemma handleResponse_not_ok:
  "\<not> resp_ok response \<Longrightarrow> resp_text response = Inr t \<Longrightarrow>
   handleResponse c net config response =
     Inr \<lparr>network = net, chainName = c, mode = dws,
          providerId = None, nodeId = None, containerId = None,
          endpoints = (Some '''', ''''), tee = teeRequired config, status = failed\<rparr>"
  by (simp add: handleResponse_def)

lemma handleResponse_not_ok_unread:
  "\<not> resp_ok response \<Longrightarrow> resp_text response = Inl e \<Longrightarrow>
   handleResponse c net config response = Inl e"
  by (simp add: handleResponse_def)

lemma handleResponse_ok:
  "resp_ok response \<Longrightarrow> resp_json response = Inr (Some result) \<Longrightarrow>
   api_endpoints result = Some eps \<Longrightarrow>
   handleResponse c net config response =
     Inr \<lparr>network = net, chainName = c, mode = dws,
          providerId = None, nodeId = None, containerId = api_containerId result,
          endpoints = (api_rpc eps, (case api_ws eps of None \<Rightarrow> '''' | Some w \<Rightarrow> w)),
          tee = teeRequired config,
          status = (if api_status result = Some ''running'' then running else pending)\<rparr>"
  by (simp add: handleResponse_def)

lemma handleResponse_ok_unparsed:
  "resp_ok response \<Longrightarrow> resp_json response = Inl e \<Longrightarrow>
   handleResponse c net config response = Inl e"
  by (simp add: handleResponse_def)

lemma handleResponse_ok_null:
  "resp_ok response \<Longrightarrow> resp_json response = Inr None \<Longrightarrow>
   \<exists>msg. handleResponse c net config response = Inl (TypeError msg)"
  by (simp add: handleResponse_def)

lemma handleResponse_ok_no_endpoints:
  "resp_ok response \<Longrightarrow> resp_json response = Inr (Some result) \<Longrightarrow>
   api_endpoints result = None \<Longrightarrow>
   \<exists>msg. handleResponse c net config response = Inl (TypeError msg)"
  by (simp add: handleResponse_def)

lemma lookup_base_mainnet: "lookupConfig ''base'' Mainnet \<noteq> None"
  by (simp add: lookupConfig_def CHAIN_CONFIGS_def)

lemma provisionRequest_example:
  "\<exists>config request. provisionRequest (example_dd_env response) ''base'' Mainnet mainnet ''0xkey''
      = Inr (config, request)"
  using lookup_base_mainnet
  by (auto simp: provisionRequest_def example_dd_env_def Let_def split: option.splits)

lemma deployDWSNode_example:
  "deployDWSNode (example_dd_env response) ''base'' Mainnet mainnet ''0xkey''
     = handleResponse ''base'' mainnet (the (lookupConfig ''base'' Mainnet)) response"
  using lookup_base_mainnet
  by (auto simp: deployDWSNode_def provisionRequest_def example_dd_env_def Let_def
      split: option.splits)

text \<open>
  C8, as it is worded: whenever the API answers with a status that is not ok,
  \<open>deployDWSNode\<close> does not throw, and on every ok response the result's status is
  \<open>running\<close> or \<open>pending\<close>. Neither holds. An ok response whose body is not JSON makes
  \<open>response.json()\<close> reject, and one whose JSON has no \<open>endpoints\<close> makes
  \<open>result.endpoints.rpc\<close> a \<open>TypeError\<close>: in both cases the function throws and there is no
  result. A response that is not ok whose body cannot be read makes \<open>response.text()\<close>
  reject, and the function throws as well.
\<close>

theorem deployDWSNode_response_counterexample:
  "resp_ok not_json_response
   \<and> deployDWSNode (example_dd_env not_json_response) ''base'' Mainnet mainnet ''0xkey''
       = Inl (JsonError ''Unexpected token'')
   \<and> resp_ok no_endpoints_response
   \<and> deployDWSNode (example_dd_env no_endpoints_response) ''base'' Mainnet mainnet ''0xkey''
       = Inl (TypeError ''Cannot read properties of undefined'')
   \<and> \<not> resp_ok unreadable_error_response
   \<and> deployDWSNode (example_dd_env unreadable_error_response) ''base'' Mainnet mainnet ''0xkey''
       = Inl (BodyReadError ''terminated'')"
  by (simp add: deployDWSNode_example handleResponse_def not_json_response_def
      no_endpoints_response_def unreadable_error_response_def)

text \<open>
  C8, as the code has it. Once \<open>deployDWSNode\<close> has sent its container-provision
  request and the DWS API has answered: on a response that is not ok whose body can be
  read, it does not throw and returns a result with status \<open>failed\<close> and empty \<open>rpc\<close> and
  \<open>ws\<close> endpoints; if the body cannot be read, the rejection of \<open>response.text()\<close>
  leaves the function. On an ok response whose body parses to a value with an
  \<open>endpoints\<close> object, the result's status is \<open>running\<close> exactly when the API reports the
  status \<open>'running'\<close> and \<open>pending\<close> otherwise, with the API's \<open>rpc\<close>, its \<open>ws\<close> or the empty
  string, and its container id; on an ok response whose body does not parse the
  rejection of \<open>response.json()\<close> leaves the function, and on one that parses to \<open>null\<close>
  or has no \<open>endpoints\<close> a \<open>TypeError\<close> does.
\<close>

theorem deployDWSNode_response_status:
  assumes "provisionRequest env c m net key = Inr (config, request)"
    and "dd_fetch env request = Inr response"
  shows "(\<forall>t. \<not> resp_ok response \<and> resp_text response = Inr t \<longrightarrow>
            deployDWSNode env c m net key =
              Inr \<lparr>network = net, chainName = c, mode = dws,
                   providerId = None, nodeId = None, containerId = None,
                   endpoints = (Some '''', ''''), tee = teeRequired config, status = failed\<rparr>)
         \<and> (\<forall>e. \<not> resp_ok response \<and> resp_text response = Inl e \<longrightarrow>
              deployDWSNode env c m net key = Inl e)
         \<and> (\<forall>result eps. resp_ok response \<and> resp_json response = Inr (Some result)
                \<and> api_endpoints result = Some eps \<longrightarrow>
              (\<exists>r. deployDWSNode env c m net key = Inr r
                 \<and> (status r = running \<longleftrightarrow> api_status result = Some ''running'')
                 \<and> (status r = pending \<longleftrightarrow> api_status result \<noteq> Some ''running'')
                 \<and> endpoints r = (api_rpc eps, (case api_ws eps of None \<Rightarrow> '''' | Some w \<Rightarrow> w))
                 \<and> containerId r = api_containerId result))
         \<and> (\<forall>e. resp_ok response \<and> resp_json response = Inl e \<longrightarrow>
              deployDWSNode env c m net key = Inl e)
         \<and> (resp_ok response \<and> (resp_json response = Inr None
                \<or> (\<exists>result. resp_json response = Inr (Some result) \<and> api_endpoints result = None))
              \<longrightarrow> (\<exists>msg. deployDWSNode env c m net key = Inl (TypeError msg)))"
proof -
  have d: "deployDWSNode env c m net key = handleResponse c net config response"
    using assms by (simp add: deployDWSNode_def)
  show ?thesis
  proof (intro conjI allI impI)
    fix t assume "\<not> resp_ok response \<and> resp_text response = Inr t"
    then show "deployDWSNode env c m net key =
              Inr \<lparr>network = net, chainName = c, mode = dws,
                   providerId = None, nodeId = None, containerId = None,
                   endpoints = (Some '''', ''''), tee = teeRequired config, status = failed\<rparr>"
      unfolding d using handleResponse_not_ok[of response t c net config] by simp
  next
    fix e assume "\<not> resp_ok response \<and> resp_text response = Inl e"
    then show "deployDWSNode env c m net key = Inl e"
      unfolding d using handleResponse_not_ok_unread[of response e c net config] by simp
  next
    fix result eps
    assume a: "resp_ok response \<and> resp_json response = Inr (Some result)
                \<and> api_endpoints result = Some eps"
    have h: "handleResponse c net config response =
     Inr \<lparr>network = net, chainName = c, mode = dws,
          providerId = None, nodeId = None, containerId = api_containerId result,
          endpoints = (api_rpc eps, (case api_ws eps of None \<Rightarrow> '''' | Some w \<Rightarrow> w)),
          tee = teeRequired config,
          status = (if api_status result = Some ''running'' then running else pending)\<rparr>"
      using a handleResponse_ok[of response result eps c net config] by simp
    show "\<exists>r. deployDWSNode env c m net key = Inr r
                 \<and> (status r = running \<longleftrightarrow> api_status result = Some ''running'')
                 \<and> (status r = pending \<longleftrightarrow> api_status result \<noteq> Some ''running'')
                 \<and> endpoints r = (api_rpc eps, (case api_ws eps of None \<Rightarrow> '''' | Some w \<Rightarrow> w))
                 \<and> containerId r = api_containerId result"
      unfolding d h by simp
  next
    fix e assume "resp_ok response \<and> resp_json response = Inl e"
    then show "deployDWSNode env c m net key = Inl e"
      unfolding d using handleResponse_ok_unparsed[of response e c net config] by simp
  next
    assume a: "resp_ok response \<and> (resp_json response = Inr None
                \<or> (\<exists>result. resp_json response = Inr (Some result) \<and> api_endpoints result = None))"
    then show "\<exists>msg. deployDWSNode env c m net key = Inl (TypeError msg)"
      unfolding d
      using handleResponse_ok_null[of response c net config]
        handleResponse_ok_no_endpoints[of response _ c net config]
      by blast
  qed
qed

theorem deployDWSNode_response_status_witness:
  "(\<exists>r. deployDWSNode (example_dd_env error_response) ''base'' Mainnet mainnet ''0xkey'' = Inr r
       \<and> status r = failed \<and> endpoints r = (Some '''', ''''))
   \<and> (\<exists>r. deployDWSNode (example_dd_env (ok_response ''running'')) ''base'' Mainnet mainnet ''0xkey'' = Inr r
       \<and> status r = running)
   \<and> (\<exists>r. deployDWSNode (example_dd_env (ok_response ''starting'')) ''base'' Mainnet mainnet ''0xkey'' = Inr r
       \<and> status r = pending)
   \<and> deployDWSNode (example_dd_env not_json_response) ''base'' Mainnet mainnet ''0xkey''
       = Inl (JsonError ''Unexpected token'')
   \<and> deployDWSNode (example_dd_env unreadable_error_response) ''base'' Mainnet mainnet ''0xkey''
       = Inl (BodyReadError ''terminated'')
   \<and> (\<exists>msg. deployDWSNode (example_dd_env no_endpoints_response) ''base'' Mainnet mainnet ''0xkey''
       = Inl (TypeError msg))"
proof -
  have f: "dd_fetch (example_dd_env response) request = Inr response" for response request
    by (simp add: example_dd_env_def)
  obtain c1 r1 where p1: "provisionRequest (example_dd_env error_response) ''base'' Mainnet mainnet ''0xkey'' = Inr (c1, r1)"
    using provisionRequest_example by blast
  obtain c2 r2 where p2: "provisionRequest (example_dd_env (ok_response ''running'')) ''base'' Mainnet mainnet ''0xkey'' = Inr (c2, r2)"
    using provisionRequest_example by blast
  obtain c3 r3 where p3: "provisionRequest (example_dd_env (ok_response ''starting'')) ''base'' Mainnet mainnet ''0xkey'' = Inr (c3, r3)"
    using provisionRequest_example by blast
  obtain c4 r4 where p4: "provisionRequest (example_dd_env not_json_response) ''base'' Mainnet mainnet ''0xkey'' = Inr (c4, r4)"
    using provisionRequest_example by blast
  obtain c5 r5 where p5: "provisionRequest (example_dd_env unreadable_error_response) ''base'' Mainnet mainnet ''0xkey'' = Inr (c5, r5)"
    using provisionRequest_example by blast
  obtain c6 r6 where p6: "provisionRequest (example_dd_env no_endpoints_response) ''base'' Mainnet mainnet ''0xkey'' = Inr (c6, r6)"
    using provisionRequest_example by blast
  have a: "\<exists>r. deployDWSNode (example_dd_env error_response) ''base'' Mainnet mainnet ''0xkey'' = Inr r
       \<and> status r = failed \<and> endpoints r = (Some '''', '''')"
    using deployDWSNode_response_status[OF p1 f] by (simp add: error_response_def)
  have b: "\<exists>r. deployDWSNode (example_dd_env (ok_response ''running'')) ''base'' Mainnet mainnet ''0xkey'' = Inr r
       \<and> status r = running"
    using deployDWSNode_response_status[OF p2 f] by (auto simp: ok_response_def)
  have c: "\<exists>r. deployDWSNode (example_dd_env (ok_response ''starting'')) ''base'' Mainnet mainnet ''0xkey'' = Inr r
       \<and> status r = pending"
    using deployDWSNode_response_status[OF p3 f] by (auto simp: ok_response_def)
  have d: "deployDWSNode (example_dd_env not_json_response) ''base'' Mainnet mainnet ''0xkey''
       = Inl (JsonError ''Unexpected token'')"
    using deployDWSNode_response_status[OF p4 f] by (simp add: not_json_response_def)
  have e: "deployDWSNode (example_dd_env unreadable_error_response) ''base'' Mainnet mainnet ''0xkey''
       = Inl (BodyReadError ''terminated'')"
    using deployDWSNode_response_status[OF p5 f] by (simp add: unreadable_error_response_def)
  have g: "\<exists>msg. deployDWSNode (example_dd_env no_endpoints_response) ''base'' Mainnet mainnet ''0xkey''
       = Inl (TypeError msg)"
    using deployDWSNode_response_status[OF p6 f] by (simp add: no_endpoints_response_def)
  from a b c d e g show ?thesis by (intro conjI)
qed

section \<open>Trusted execution in the configuration table\<close>

lemma table_tee:
  "\<forall>(c, modes) \<in> set CHAIN_CONFIGS. \<forall>(m, cfg) \<in> set modes.
     (m = Mainnet \<longrightarrow> teeRequired cfg \<and> teeType cfg = ''intel_tdx'')
     \<and> (m \<noteq> Mainnet \<longrightarrow> \<not> teeRequired cfg)"
  by (simp add: CHAIN_CONFIGS_def)

lemma lookupConfig_in_table:
  assumes "lookupConfig c m = Some cfg"
  shows "\<exists>modes. (c, modes) \<in> set CHAIN_CONFIGS \<and> (m, cfg) \<in> set modes"
  using assms by (auto simp: lookupConfig_def split: option.splits dest: map_of_SomeD)

lemma lookupConfig_tee:
  assumes "lookupConfig c m = Some cfg"
  shows "(m = Mainnet \<longrightarrow> teeRequired cfg \<and> teeType cfg = ''intel_tdx'')
     \<and> (m \<noteq> Mainnet \<longrightarrow> \<not> teeRequired cfg)"
  using lookupConfig_in_table[OF assms] table_tee by fastforce

lemma provisionRequest_config:
  assumes "provisionRequest env c m net key = Inr (config, request)"
  shows "lookupConfig c m = Some config
     \<and> body_config (req_body request) = containerConfigOf c net config"
  using assms
  by (auto simp: provisionRequest_def Let_def split: option.splits sum.splits)

lemma containerConfigOf_tee:
  "teePlatform (cc_hardware (containerConfigOf c net config))
     = (if teeRequired config then teeType config else ''none'')"
  by (simp add: containerConfigOf_def)

text \<open>
  C10. Every Mainnet entry of \<open>CHAIN_CONFIGS\<close> requires a TEE of type \<open>intel_tdx\<close>, and
  no Devnet or Testnet entry requires one; the same holds of whatever configuration
  \<open>deployDWSNode\<close> looks up. The \<open>hardware.teePlatform\<close> of the container request it
  sends is the configuration's \<open>teeType\<close> when \<open>teeRequired\<close> is true and \<open>'none'\<close>
  otherwise.
\<close>

theorem chain_configs_tee:
  "(\<forall>(c, modes) \<in> set CHAIN_CONFIGS. \<forall>(m, cfg) \<in> set modes.
      (m = Mainnet \<longrightarrow> teeRequired cfg \<and> teeType cfg = ''intel_tdx'')
      \<and> (m \<noteq> Mainnet \<longrightarrow> \<not> teeRequired cfg))
   \<and> (\<forall>c m cfg. lookupConfig c m = Some cfg \<longrightarrow>
        (m = Mainnet \<longrightarrow> teeRequired cfg \<and> teeType cfg = ''intel_tdx'')
        \<and> (m \<noteq> Mainnet \<longrightarrow> \<not> teeRequired cfg))
   \<and> (\<forall>env c m net key config request.
        provisionRequest env c m net key = Inr (config, request) \<longrightarrow>
        lookupConfig c m = Some config
        \<and> teePlatform (cc_hardware (body_config (req_body request)))
            = (if teeRequired config then teeType config else ''none''))"
proof (intro conjI allI impI)
  show "\<forall>(c, modes) \<in> set CHAIN_CONFIGS. \<forall>(m, cfg) \<in> set modes.
      (m = Mainnet \<longrightarrow> teeRequired cfg \<and> teeType cfg = ''intel_tdx'')
      \<and> (m \<noteq> Mainnet \<longrightarrow> \<not> teeRequired cfg)"
    by (rule table_tee)
next
  fix c m cfg assume "lookupConfig c m = Some cfg" "m = Mainnet"
  then show "teeRequired cfg" "teeType cfg = ''intel_tdx''"
    using lookupConfig_tee by blast+
next
  fix c m cfg assume "lookupConfig c m = Some cfg" "m \<noteq> Mainnet"
  then show "\<not> teeRequired cfg"
    using lookupConfig_tee by blast
next
  fix env c m net key config request
  assume p: "provisionRequest env c m net key = Inr (config, request)"
  show "lookupConfig c m = Some config"
    using provisionRequest_config[OF p] by simp
  show "teePlatform (cc_hardware (body_config (req_body request)))
            = (if teeRequired config then teeType config else ''none'')"
    using provisionRequest_config[OF p] by (simp add: containerConfigOf_tee)
qed

lemma lookup_examples:
  "\<exists>cfg. lookupConfig ''solana'' Mainnet = Some cfg"
  "\<exists>cfg. lookupConfig ''ethereum'' Testnet = Some cfg"
  by (simp_all add: lookupConfig_def CHAIN_CONFIGS_def)

theorem chain_configs_tee_witness:
  "(\<exists>cfg. lookupConfig ''solana'' Mainnet = Some cfg
       \<and> teeRequired cfg \<and> teeType cfg = ''intel_tdx'')
   \<and> (\<exists>cfg. lookupConfig ''ethereum'' Testnet = Some cfg \<and> \<not> teeRequired cfg)
   \<and> (\<exists>config request.
         provisionRequest (example_dd_env error_response) ''base'' Mainnet mainnet ''0xkey''
           = Inr (config, request)
         \<and> teePlatform (cc_hardware (body_config (req_body request))) = ''intel_tdx'')"
proof -
  obtain c1 where l1: "lookupConfig ''solana'' Mainnet = Some c1"
    using lookup_examples(1) by blast
  obtain c2 where l2: "lookupConfig ''ethereum'' Testnet = Some c2"
    using lookup_examples(2) by blast
  obtain c3 r3 where p3:
    "provisionRequest (example_dd_env error_response) ''base'' Mainnet mainnet ''0xkey'' = Inr (c3, r3)"
    using provisionRequest_example by blast
  have a: "teeRequired c1 \<and> teeType c1 = ''intel_tdx''"
    using chain_configs_tee l1 by blast
  have b: "\<not> teeRequired c2"
    using chain_configs_tee l2 by blast
  have "lookupConfig ''base'' Mainnet = Some c3
      \<and> teePlatform (cc_hardware (body_config (req_body r3)))
          = (if teeRequired c3 then teeType c3 else ''none'')"
    using chain_configs_tee p3 by blast
  moreover from this have "teeRequired c3 \<and> teeType c3 = ''intel_tdx''"
    using chain_configs_tee by blast
  ultimately have c: "teePlatform (cc_hardware (body_config (req_body r3))) = ''intel_tdx''"
    by simp
  from a b c l1 l2 p3 show ?thesis by blast
qed

section \<open>Capability queries of the node registry\<close>

text \<open>
  C4. For every registered node and capability tag, \<open>listByCapability\<close> returns the
  node exactly when the tag is in its capability set and its health status is healthy;
  it returns registered nodes only, in the order of their node ids.
\<close>

theorem listByCapability_iff:
  "(\<forall>n \<in> set nodes. n \<in> set (listByCapability nodes c) \<longleftrightarrow>
        (c \<in> set (node_capabilities n) \<and> node_health n = Healthy))
   \<and> set (listByCapability nodes c) \<subseteq> set nodes
   \<and> sorted (map node_id (listByCapability nodes c))"
  by (auto simp: listByCapability_def)

theorem listByCapability_iff_witness:
  "example_node 1 [''db'', ''storage''] Healthy \<in> set (listByCapability example_nodes ''db'')
   \<and> example_node 2 [''db''] Unhealthy \<notin> set (listByCapability example_nodes ''db'')
   \<and> example_node 4 [''storage''] Healthy \<notin> set (listByCapability example_nodes ''db'')
   \<and> map node_id (listByCapability example_nodes ''db'') = [1, 3]
   \<and> sorted (map node_id (listByCapability example_nodes ''db''))"
proof -
  have m: "example_node 1 [''db'', ''storage''] Healthy \<in> set example_nodes"
    "example_node 2 [''db''] Unhealthy \<in> set example_nodes"
    "example_node 4 [''storage''] Healthy \<in> set example_nodes"
    by (simp_all add: example_nodes_def)
  have ids: "map node_id (listByCapability example_nodes ''db'') = [1, 3]"
    by (simp add: listByCapability_def example_nodes_def example_node_def)
  note t = listByCapability_iff[of example_nodes "''db''"]
  have a: "example_node 1 [''db'', ''storage''] Healthy \<in> set (listByCapability example_nodes ''db'')"
    using t m(1) by (simp add: example_node_def)
  have b: "example_node 2 [''db''] Unhealthy \<notin> set (listByCapability example_nodes ''db'')"
    using t m(2) by (simp add: example_node_def)
  have c: "example_node 4 [''storage''] Healthy \<notin> set (listByCapability example_nodes ''db'')"
    using t m(3) by (simp add: example_node_def)
  from a b c ids t show ?thesis by simp
qed

section \<open>Health marks and resolution\<close>

lemma weightedPick_mem: "weightedPick es d = Some e \<Longrightarrow> e \<in> set es"
  by (induction es d rule: weightedPick.induct) (auto split: if_splits)

lemma resolveA_healthy:
  "resolveA dns n = Inr as \<Longrightarrow> \<exists>r. dns n = Some r \<and> set as = ep_address ` set (healthyEndpoints r)"
  by (auto simp: resolveA_def split: option.splits)


lemma resolveSRV_healthy:
  "resolveSRV dns n = Inr srv \<Longrightarrow> \<exists>r. dns n = Some r \<and> fst ` set srv = ep_address ` set (healthyEndpoints r)"
proof -
  assume a: "resolveSRV dns n = Inr srv"
  then obtain r where r: "dns n = Some r" by (auto simp: resolveSRV_def split: option.splits)
  with a have "srv = map (\<lambda>e. (ep_address e, ep_port e, ep_weight e)) (healthyEndpoints r)"
    by (simp add: resolveSRV_def)
  then have "map fst srv = map ep_address (healthyEndpoints r)" by simp
  then have "fst ` set srv = ep_address ` set (healthyEndpoints r)"
    by (metis list.set_map)
  with r show ?thesis by blast
qed

lemma find_mem: "find P xs = Some x \<Longrightarrow> x \<in> set xs"
  by (induction xs) (auto split: if_splits)

lemma resolveLeader_healthy:
  "resolveLeader dns n = Inr e \<Longrightarrow> \<exists>r. dns n = Some r \<and> e \<in> set (healthyEndpoints r)"
  by (auto simp: resolveLeader_def split: option.splits dest: find_mem)

lemma resolveWithLoadBalancing_healthy:
  assumes "resolveWithLoadBalancing dns n s d = Inr e"
  shows "\<exists>r. dns n = Some r \<and> e \<in> set (healthyEndpoints r)"
proof -
  from assms obtain r where r: "dns n = Some r"
    by (auto simp: resolveWithLoadBalancing_def split: option.splits)
  have ne: "healthyEndpoints r \<noteq> []"
    using assms r by (auto simp: resolveWithLoadBalancing_def Let_def split: if_splits)
  have "e \<in> set (healthyEndpoints r)"
  proof (cases s)
    case RoundRobin
    then have "e = healthyEndpoints r ! (d mod length (healthyEndpoints r))"
      using assms r ne by (simp add: resolveWithLoadBalancing_def Let_def)
    then show ?thesis using ne by simp
  next
    case WeightedRandom
    then have "weightedPick (healthyEndpoints r) d = Some e"
      using assms r ne by (simp add: resolveWithLoadBalancing_def Let_def split: option.splits)
    then show ?thesis by (rule weightedPick_mem)
  qed
  with r show ?thesis by blast
qed

lemma markEndpoint_twice:
  "markEndpoint flag a t2 (markEndpoint flag a t1 e) = markEndpoint flag a t1 e"
  by (simp add: markEndpoint_def)

lemma markEndpoint_address: "ep_address (markEndpoint flag a t e) = ep_address e"
  by (simp add: markEndpoint_def)

lemma markEndpoint_flag: "ep_address e = a \<Longrightarrow> ep_healthy (markEndpoint flag a t e) = flag"
  by (simp add: markEndpoint_def)

lemma setEndpointHealth_twice:
  "setEndpointHealth flag (setEndpointHealth flag dns n a t1) n a t2 = setEndpointHealth flag dns n a t1"
proof (cases "dns n")
  case None
  then show ?thesis by (simp add: setEndpointHealth_def)
next
  case (Some r)
  have m: "markEndpoint flag a t2 \<circ> markEndpoint flag a t1 = markEndpoint flag a t1"
    by (rule ext) (simp add: markEndpoint_twice)
  show ?thesis using Some by (simp add: setEndpointHealth_def m)
qed

lemma healthy_after_unhealthy:
  assumes "markEndpointUnhealthy dns n a t n = Some r'"
  shows "a \<notin> ep_address ` set (healthyEndpoints r')"
proof (cases "dns n")
  case None
  then have "markEndpointUnhealthy dns n a t n = None"
    by (simp add: markEndpointUnhealthy_def setEndpointHealth_def)
  with assms show ?thesis by simp
next
  case (Some r)
  then have "markEndpointUnhealthy dns n a t n =
      Some (r\<lparr>rec_endpoints := map (markEndpoint False a t) (rec_endpoints r)\<rparr>)"
    by (simp add: markEndpointUnhealthy_def setEndpointHealth_def)
  with assms have "r' = r\<lparr>rec_endpoints := map (markEndpoint False a t) (rec_endpoints r)\<rparr>"
    by simp
  then have eps: "rec_endpoints r' = map (markEndpoint False a t) (rec_endpoints r)"
    by simp
  show ?thesis
  proof
    assume "a \<in> ep_address ` set (healthyEndpoints r')"
    then obtain e where e: "e \<in> set (rec_endpoints r')" "ep_healthy e" "ep_address e = a"
      by (auto simp: healthyEndpoints_def)
    from e(1) eps obtain e0 where e0: "e = markEndpoint False a t e0"
      by (auto simp only: set_map image_iff)
    with e(3) have "ep_address e0 = a" by (simp add: markEndpoint_address)
    then have "\<not> ep_healthy e" unfolding e0 by (simp add: markEndpoint_flag)
    with e(2) show False by simp
  qed
qed

lemma listing_after_unhealthy:
  assumes "dns n = Some r"
  shows "\<exists>r'. getServiceByFqdn (markEndpointUnhealthy dns n a t) n = Some r'
          \<and> map ep_address (rec_endpoints r') = map ep_address (rec_endpoints r)"
proof -
  have "map ep_address (map (markEndpoint False a t) es) = map ep_address es" for es
    by (induction es) (simp_all add: markEndpoint_address)
  then show ?thesis using assms
    by (simp add: getServiceByFqdn_def markEndpointUnhealthy_def setEndpointHealth_def del: map_map)
qed

text \<open>
  C5. \<open>markEndpointHealthy\<close> and \<open>markEndpointUnhealthy\<close> are idempotent: a second call
  in succession, at whatever time, leaves the table, and so the endpoint set with its
  time stamps, exactly as the first call left it. After an endpoint has been marked
  unhealthy, none of \<open>resolveA\<close>,
  \<open>resolveSRV\<close>, \<open>resolveLeader\<close> and \<open>resolveWithLoadBalancing\<close> answers with its
  address, and the two that answer with an endpoint only ever answer with a healthy one;
  the full listing still shows every address.
\<close>

theorem health_marks_idempotent_and_exclusive:
  "markEndpointHealthy (markEndpointHealthy dns n a t1) n a t2 = markEndpointHealthy dns n a t1
   \<and> markEndpointUnhealthy (markEndpointUnhealthy dns n a t1) n a t2
       = markEndpointUnhealthy dns n a t1
   \<and> (\<forall>as. resolveA (markEndpointUnhealthy dns n a t) n = Inr as \<longrightarrow> a \<notin> set as)
   \<and> (\<forall>srv. resolveSRV (markEndpointUnhealthy dns n a t) n = Inr srv \<longrightarrow> a \<notin> fst ` set srv)
   \<and> (\<forall>e. resolveLeader (markEndpointUnhealthy dns n a t) n = Inr e \<longrightarrow> ep_address e \<noteq> a)
   \<and> (\<forall>s d e. resolveWithLoadBalancing (markEndpointUnhealthy dns n a t) n s d = Inr e
         \<longrightarrow> ep_address e \<noteq> a)
   \<and> (\<forall>e. resolveLeader dns n = Inr e \<longrightarrow> ep_healthy e)
   \<and> (\<forall>s d e. resolveWithLoadBalancing dns n s d = Inr e \<longrightarrow> ep_healthy e)
   \<and> (\<forall>r. dns n = Some r \<longrightarrow>
         (\<exists>r'. getServiceByFqdn (markEndpointUnhealthy dns n a t) n = Some r'
            \<and> map ep_address (rec_endpoints r') = map ep_address (rec_endpoints r)))"
proof (intro conjI allI impI)
  show "markEndpointHealthy (markEndpointHealthy dns n a t1) n a t2 = markEndpointHealthy dns n a t1"
    by (simp add: markEndpointHealthy_def setEndpointHealth_twice)
  show "markEndpointUnhealthy (markEndpointUnhealthy dns n a t1) n a t2
       = markEndpointUnhealthy dns n a t1"
    by (simp add: markEndpointUnhealthy_def setEndpointHealth_twice)
next
  fix as assume "resolveA (markEndpointUnhealthy dns n a t) n = Inr as"
  then obtain r' where "markEndpointUnhealthy dns n a t n = Some r'"
    and "set as = ep_address ` set (healthyEndpoints r')"
    using resolveA_healthy by blast
  then show "a \<notin> set as"
    using healthy_after_unhealthy[of dns n a t r'] by simp
next
  fix srv assume "resolveSRV (markEndpointUnhealthy dns n a t) n = Inr srv"
  then obtain r' where "markEndpointUnhealthy dns n a t n = Some r'"
    and "fst ` set srv = ep_address ` set (healthyEndpoints r')"
    using resolveSRV_healthy by blast
  then show "a \<notin> fst ` set srv"
    using healthy_after_unhealthy[of dns n a t r'] by simp
next
  fix e assume "resolveLeader (markEndpointUnhealthy dns n a t) n = Inr e"
  then obtain r' where "markEndpointUnhealthy dns n a t n = Some r'"
    and "e \<in> set (healthyEndpoints r')"
    using resolveLeader_healthy by blast
  then show "ep_address e \<noteq> a"
    using healthy_after_unhealthy[of dns n a t r'] by blast
next
  fix s d e assume "resolveWithLoadBalancing (markEndpointUnhealthy dns n a t) n s d = Inr e"
  then obtain r' where "markEndpointUnhealthy dns n a t n = Some r'"
    and "e \<in> set (healthyEndpoints r')"
    using resolveWithLoadBalancing_healthy by blast
  then show "ep_address e \<noteq> a"
    using healthy_after_unhealthy[of dns n a t r'] by blast
next
  fix e assume "resolveLeader dns n = Inr e"
  then obtain r where "e \<in> set (healthyEndpoints r)"
    using resolveLeader_healthy by blast
  then show "ep_healthy e"
    by (simp add: healthyEndpoints_def)
next
  fix s d e assume "resolveWithLoadBalancing dns n s d = Inr e"
  then obtain r where "e \<in> set (healthyEndpoints r)"
    using resolveWithLoadBalancing_healthy by blast
  then show "ep_healthy e"
    by (simp add: healthyEndpoints_def)
next
  fix r assume "dns n = Some r"
  then show "\<exists>r'. getServiceByFqdn (markEndpointUnhealthy dns n a t) n = Some r'
            \<and> map ep_address (rec_endpoints r') = map ep_address (rec_endpoints r)"
    by (rule listing_after_unhealthy)
qed

theorem health_marks_idempotent_and_exclusive_witness:
  "markEndpointHealthy (markEndpointHealthy example_dns ''pg.svc.jeju'' ''10.0.0.1'' 5)
       ''pg.svc.jeju'' ''10.0.0.1'' 6
     = markEndpointHealthy example_dns ''pg.svc.jeju'' ''10.0.0.1'' 5
   \<and> markEndpointUnhealthy (markEndpointUnhealthy example_dns ''pg.svc.jeju'' ''10.0.0.1'' 5)
       ''pg.svc.jeju'' ''10.0.0.1'' 6
     = markEndpointUnhealthy example_dns ''pg.svc.jeju'' ''10.0.0.1'' 5
   \<and> map_option (\<lambda>r. map ep_lastUpdated (rec_endpoints r))
         (getServiceByFqdn
            (markEndpointUnhealthy (markEndpointUnhealthy example_dns ''pg.svc.jeju'' ''10.0.0.1'' 5)
               ''pg.svc.jeju'' ''10.0.0.1'' 6) ''pg.svc.jeju'')
       = Some [5, 0]
   \<and> resolveA (markEndpointUnhealthy example_dns ''pg.svc.jeju'' ''10.0.0.1'' 5) ''pg.svc.jeju''
       = Inr [''10.0.0.3'']
   \<and> ''10.0.0.1'' \<notin> set [''10.0.0.3'']
   \<and> resolveSRV (markEndpointUnhealthy example_dns ''pg.svc.jeju'' ''10.0.0.1'' 5) ''pg.svc.jeju''
       = Inr [(''10.0.0.3'', 5432, 1)]
   \<and> resolveLeader (markEndpointUnhealthy example_dns ''pg.svc.jeju'' ''10.0.0.1'' 5) ''pg.svc.jeju''
       = Inl NoLeaderError
   \<and> resolveWithLoadBalancing (markEndpointUnhealthy example_dns ''pg.svc.jeju'' ''10.0.0.1'' 5)
         ''pg.svc.jeju'' RoundRobin 0
       = Inr (example_endpoint ''10.0.0.3'' True)"
proof -
  note t = health_marks_idempotent_and_exclusive[of example_dns "''pg.svc.jeju''" "''10.0.0.1''" 5 6 5]
  have a: "resolveA (markEndpointUnhealthy example_dns ''pg.svc.jeju'' ''10.0.0.1'' 5) ''pg.svc.jeju''
       = Inr [''10.0.0.3'']"
    by (simp add: resolveA_def markEndpointUnhealthy_def setEndpointHealth_def markEndpoint_def example_dns_def
        example_endpoint_def healthyEndpoints_def)
  have s: "resolveSRV (markEndpointUnhealthy example_dns ''pg.svc.jeju'' ''10.0.0.1'' 5) ''pg.svc.jeju''
       = Inr [(''10.0.0.3'', 5432, 1)]"
    by (simp add: resolveSRV_def markEndpointUnhealthy_def setEndpointHealth_def markEndpoint_def example_dns_def
        example_endpoint_def healthyEndpoints_def)
  have l: "resolveLeader (markEndpointUnhealthy example_dns ''pg.svc.jeju'' ''10.0.0.1'' 5) ''pg.svc.jeju''
       = Inl NoLeaderError"
    by (simp add: resolveLeader_def markEndpointUnhealthy_def setEndpointHealth_def markEndpoint_def example_dns_def
        example_endpoint_def healthyEndpoints_def)
  have b: "resolveWithLoadBalancing (markEndpointUnhealthy example_dns ''pg.svc.jeju'' ''10.0.0.1'' 5)
         ''pg.svc.jeju'' RoundRobin 0
       = Inr (example_endpoint ''10.0.0.3'' True)"
    by (simp add: resolveWithLoadBalancing_def markEndpointUnhealthy_def setEndpointHealth_def
        markEndpoint_def example_dns_def example_endpoint_def healthyEndpoints_def)
  have n: "''10.0.0.1'' \<notin> set [''10.0.0.3'']"
    using t a by simp
  have h: "markEndpointHealthy (markEndpointHealthy example_dns ''pg.svc.jeju'' ''10.0.0.1'' 5)
       ''pg.svc.jeju'' ''10.0.0.1'' 6
     = markEndpointHealthy example_dns ''pg.svc.jeju'' ''10.0.0.1'' 5"
    using t by (rule conjunct1)
  have u: "markEndpointUnhealthy (markEndpointUnhealthy example_dns ''pg.svc.jeju'' ''10.0.0.1'' 5)
       ''pg.svc.jeju'' ''10.0.0.1'' 6
     = markEndpointUnhealthy example_dns ''pg.svc.jeju'' ''10.0.0.1'' 5"
    using t by (rule conjunct1[OF conjunct2])
  have st: "map_option (\<lambda>r. map ep_lastUpdated (rec_endpoints r))
         (getServiceByFqdn
            (markEndpointUnhealthy (markEndpointUnhealthy example_dns ''pg.svc.jeju'' ''10.0.0.1'' 5)
               ''pg.svc.jeju'' ''10.0.0.1'' 6) ''pg.svc.jeju'')
       = Some [5, 0]"
    unfolding u
    by (simp add: getServiceByFqdn_def markEndpointUnhealthy_def setEndpointHealth_def
        markEndpoint_def example_dns_def example_endpoint_def)
  from h u st a n s l b show ?thesis by (intro conjI)
qed

section \<open>From deploy to discovery\<close>

lemma length_assignRoles: "length (assignRoles P sid ns) = length ns"
  by (cases ns) simp_all

lemma healthy_fresh: "filter ep_healthy (map (endpointOfReplica P now) rs) = map (endpointOfReplica P now) rs"
  by (induction rs) (simp_all add: endpointOfReplica_def)

lemma length_scoringOrder: "length (scoringOrder P ns) = length ns"
  by (simp add: scoringOrder_def)

lemma deploy_Inr:
  assumes "deploy P now config st = Inr (svc, st')"
  shows "\<not> length (listByCapability (st_nodes st) (cfg_capability config)) < cfg_replicas config"
    and "svc = \<lparr>svc_id = cfg_serviceId config,
                svc_replicaCount = cfg_replicas config,
                svc_capability = cfg_capability config,
                svc_consensus = cfg_consensus config,
                svc_volume = cfg_volume config,
                svc_replicas = assignRoles P (cfg_serviceId config)
                  (take (cfg_replicas config)
                     (scoringOrder P (listByCapability (st_nodes st) (cfg_capability config))))\<rparr>"
    and "st_dns st' = (st_dns st)(fqdnOf P (cfg_serviceId config) \<mapsto>
            \<lparr>rec_fqdn = fqdnOf P (cfg_serviceId config), rec_type = ''stateful'',
             rec_endpoints = map (endpointOfReplica P now) (svc_replicas svc),
             rec_metadata = [],
             rec_leader = (case svc_replicas svc of [] \<Rightarrow> None
                           | r # _ \<Rightarrow> Some (rep_address r))\<rparr>)"
proof -
  show c: "\<not> length (listByCapability (st_nodes st) (cfg_capability config)) < cfg_replicas config"
    using assms by (simp add: deploy_def Let_def split: if_splits)
  show s: "svc = \<lparr>svc_id = cfg_serviceId config,
                svc_replicaCount = cfg_replicas config,
                svc_capability = cfg_capability config,
                svc_consensus = cfg_consensus config,
                svc_volume = cfg_volume config,
                svc_replicas = assignRoles P (cfg_serviceId config)
                  (take (cfg_replicas config)
                     (scoringOrder P (listByCapability (st_nodes st) (cfg_capability config))))\<rparr>"
    using assms c by (simp add: deploy_def Let_def)
  show "st_dns st' = (st_dns st)(fqdnOf P (cfg_serviceId config) \<mapsto>
            \<lparr>rec_fqdn = fqdnOf P (cfg_serviceId config), rec_type = ''stateful'',
             rec_endpoints = map (endpointOfReplica P now) (svc_replicas svc),
             rec_metadata = [],
             rec_leader = (case svc_replicas svc of [] \<Rightarrow> None
                           | r # _ \<Rightarrow> Some (rep_address r))\<rparr>)"
    unfolding s using assms c by (auto simp add: deploy_def Let_def)
qed

text \<open>
  C6. After a successful \<open>deploy\<close> the service has as many replicas as asked for, the
  record under its fully-qualified name holds one endpoint per replica, in order, and
  \<open>resolveSRV\<close> on that name returns exactly these endpoints: each replica's address
  with the port and weight they were registered with.
\<close>

theorem deploy_resolveSRV_roundtrip:
  assumes "deploy P now config st = Inr (svc, st')"
  shows "resolveSRV (st_dns st') (fqdnOf P (svc_id svc)) =
           Inr (map (\<lambda>r. (rep_address r, servicePort P, endpointWeight P)) (svc_replicas svc))
         \<and> length (svc_replicas svc) = cfg_replicas config
         \<and> (\<exists>published. st_dns st' (fqdnOf P (svc_id svc)) = Some published
               \<and> rec_endpoints published = map (endpointOfReplica P now) (svc_replicas svc))"
proof -
  note d = deploy_Inr[OF assms]
  have id: "svc_id svc = cfg_serviceId config"
    by (subst d(2)) simp
  have reps: "svc_replicas svc = assignRoles P (cfg_serviceId config)
                  (take (cfg_replicas config)
                     (scoringOrder P (listByCapability (st_nodes st) (cfg_capability config))))"
    by (subst d(2)) simp
  have len: "length (svc_replicas svc) = cfg_replicas config"
    using d(1) by (simp add: reps length_assignRoles length_scoringOrder)
  have pub: "st_dns st' (fqdnOf P (svc_id svc)) =
      Some \<lparr>rec_fqdn = fqdnOf P (cfg_serviceId config), rec_type = ''stateful'',
             rec_endpoints = map (endpointOfReplica P now) (svc_replicas svc),
             rec_metadata = [],
             rec_leader = (case svc_replicas svc of [] \<Rightarrow> None
                           | r # _ \<Rightarrow> Some (rep_address r))\<rparr>"
    by (simp add: d(3) id)
  have m: "map ((\<lambda>e. (ep_address e, ep_port e, ep_weight e)) \<circ> endpointOfReplica P now) rs
      = map (\<lambda>r. (rep_address r, servicePort P, endpointWeight P)) rs" for rs
    by (induction rs) (simp_all add: endpointOfReplica_def)
  have "resolveSRV (st_dns st') (fqdnOf P (svc_id svc)) =
           Inr (map (\<lambda>r. (rep_address r, servicePort P, endpointWeight P)) (svc_replicas svc))"
    by (simp add: resolveSRV_def pub healthyEndpoints_def healthy_fresh m)
  with len pub show ?thesis by simp
qed

lemma example_deploy:
  "\<exists>svc st'. deploy example_provisioner 100 (example_config 2) example_state = Inr (svc, st')
     \<and> map rep_address (svc_replicas svc) = [''10.0.0.1'', ''10.0.0.3'']
     \<and> map rep_role (svc_replicas svc) = [leader, replica]
     \<and> svc_id svc = ''pg''"
  by (simp add: deploy_def Let_def example_state_def example_config_def scoringOrder_def
      listByCapability_def example_nodes_def example_node_def example_provisioner_def)

theorem deploy_resolveSRV_roundtrip_witness:
  "\<exists>svc st'. deploy example_provisioner 100 (example_config 2) example_state = Inr (svc, st')
     \<and> resolveSRV (st_dns st') ''pg.svc.jeju'' = Inr [(''10.0.0.1'', 5432, 1), (''10.0.0.3'', 5432, 1)]
     \<and> length (svc_replicas svc) = 2"
proof -
  obtain svc st' where d: "deploy example_provisioner 100 (example_config 2) example_state = Inr (svc, st')"
    and a: "map rep_address (svc_replicas svc) = [''10.0.0.1'', ''10.0.0.3'']"
    and i: "svc_id svc = ''pg''"
    using example_deploy by (elim exE conjE) (rule that)
  have m: "map (\<lambda>r. (rep_address r, p, w)) rs = map (\<lambda>x. (x, p, w)) (map rep_address rs)" for rs p w
    by simp
  have r: "resolveSRV (st_dns st') ''pg.svc.jeju'' = Inr [(''10.0.0.1'', 5432, 1), (''10.0.0.3'', 5432, 1)]
     \<and> length (svc_replicas svc) = 2"
    using deploy_resolveSRV_roundtrip[OF d]
    by (simp only: m a i) (simp add: example_provisioner_def example_config_def)
  show ?thesis
    by (rule exI[of _ svc], rule exI[of _ st'], intro conjI)
       (rule d, rule conjunct1[OF r], rule conjunct2[OF r])
qed

end
